theory Spec2Isabelle
  imports Complex_Main
begin

section \<open>JavaScript numbers\<close>

text \<open>
  A JavaScript number is an IEEE 754 binary64 value. The finite ones are carried by
  their exact rational value; \<open>PosInf\<close>, \<open>NegInf\<close> and \<open>NaN\<close> are the three special
  values the source can produce (a division by zero, arithmetic on \<open>undefined\<close>). The
  sign of zero is not kept: no expression of the source can tell \<open>-0\<close> from \<open>0\<close>
  (every divisor is an unsigned DOM attribute).

  Each arithmetic operation computes the exact result and rounds it to the nearest
  binary64 value, ties to the even significand (\<open>fl\<close>): 53 significant bits, exponents
  from \<open>-1022\<close> to \<open>1023\<close>, gradual underflow below, overflow to infinity above.
\<close>

datatype jsnum = Fin rat | PosInf | NegInf | NaN

function bitlen :: "int \<Rightarrow> int" where
  "bitlen n = (if n \<le> 0 then 0 else 1 + bitlen (n div 2))"
  by pat_completeness auto
termination
  by (relation "measure nat") auto

declare bitlen.simps [simp del]

function pow2 :: "int \<Rightarrow> rat" where
  "pow2 k = (if k = 0 then 1 else if 0 < k then 2 * pow2 (k - 1) else pow2 (k + 1) / 2)"
  by pat_completeness auto
termination
  by (relation "measure (\<lambda>k. nat \<bar>k\<bar>)") auto

declare pow2.simps [simp del]

text \<open>\<open>binexp a\<close> is the binary exponent of a positive rational: \<open>2^e \<le> a < 2^(e+1)\<close>.\<close>

definition binexp :: "rat \<Rightarrow> int" where
  "binexp a =
     (let (p, d) = quotient_of a;
          k = bitlen p - bitlen d
      in if pow2 k \<le> a then k else k - 1)"

definition round_half_even :: "rat \<Rightarrow> int" where
  "round_half_even x =
     (let f = \<lfloor>x\<rfloor>; d = x - of_int f
      in if d < 1 / 2 then f
         else if 1 / 2 < d then f + 1
         else if even f then f else f + 1)"

fun js_neg :: "jsnum \<Rightarrow> jsnum" where
  "js_neg (Fin q) = Fin (- q)"
| "js_neg PosInf = NegInf"
| "js_neg NegInf = PosInf"
| "js_neg NaN = NaN"

definition fl_pos :: "rat \<Rightarrow> jsnum" where
  "fl_pos a =
     (let e = binexp a in
      if 1024 \<le> e then PosInf
      else let u = pow2 (max e (- 1022) - 52);
               m = round_half_even (a / u)
           in if e = 1023 \<and> 2 ^ 53 \<le> m then PosInf else Fin (of_int m * u))"

definition fl :: "rat \<Rightarrow> jsnum" where
  "fl q = (if q = 0 then Fin 0 else if 0 < q then fl_pos q else js_neg (fl_pos (- q)))"

fun js_add :: "jsnum \<Rightarrow> jsnum \<Rightarrow> jsnum" where
  "js_add NaN _ = NaN"
| "js_add _ NaN = NaN"
| "js_add PosInf NegInf = NaN"
| "js_add NegInf PosInf = NaN"
| "js_add PosInf _ = PosInf"
| "js_add _ PosInf = PosInf"
| "js_add NegInf _ = NegInf"
| "js_add _ NegInf = NegInf"
| "js_add (Fin a) (Fin b) = fl (a + b)"

definition js_sub :: "jsnum \<Rightarrow> jsnum \<Rightarrow> jsnum" where
  "js_sub a b = js_add a (js_neg b)"

text \<open>The sign of an infinite product or quotient; a zero operand counts as \<open>+0\<close>.\<close>

definition signed_inf :: "bool \<Rightarrow> jsnum" where
  "signed_inf negative = (if negative then NegInf else PosInf)"

fun is_negative :: "jsnum \<Rightarrow> bool" where
  "is_negative (Fin q) = (q < 0)"
| "is_negative NegInf = True"
| "is_negative _ = False"

fun js_mul :: "jsnum \<Rightarrow> jsnum \<Rightarrow> jsnum" where
  "js_mul NaN _ = NaN"
| "js_mul _ NaN = NaN"
| "js_mul (Fin a) (Fin b) = fl (a * b)"
| "js_mul (Fin a) y = (if a = 0 then NaN else signed_inf (is_negative (Fin a) \<noteq> is_negative y))"
| "js_mul x (Fin b) = (if b = 0 then NaN else signed_inf (is_negative x \<noteq> is_negative (Fin b)))"
| "js_mul x y = signed_inf (is_negative x \<noteq> is_negative y)"

fun js_div :: "jsnum \<Rightarrow> jsnum \<Rightarrow> jsnum" where
  "js_div NaN _ = NaN"
| "js_div _ NaN = NaN"
| "js_div (Fin a) (Fin b) =
     (if b = 0 then (if a = 0 then NaN else signed_inf (a < 0)) else fl (a / b))"
| "js_div (Fin a) y = Fin 0"
| "js_div x (Fin b) = signed_inf (is_negative x \<noteq> is_negative (Fin b))"
| "js_div x y = NaN"

text \<open>
  \<open>Math.round\<close>: the nearest integer, a tie going towards \<open>+\<infinity>\<close>; the result is exact.
\<close>

fun js_round :: "jsnum \<Rightarrow> jsnum" where
  "js_round (Fin q) = Fin (of_int \<lfloor>q + 1 / 2\<rfloor>)"
| "js_round x = x"

fun js_gt :: "jsnum \<Rightarrow> jsnum \<Rightarrow> bool" where
  "js_gt NaN _ = False"
| "js_gt _ NaN = False"
| "js_gt (Fin a) (Fin b) = (b < a)"
| "js_gt PosInf y = (y \<noteq> PosInf)"
| "js_gt x NegInf = (x \<noteq> NegInf)"
| "js_gt _ _ = False"

text \<open>Truthiness of a number: \<open>0\<close> and \<open>NaN\<close> are falsy.\<close>

fun truthy :: "jsnum \<Rightarrow> bool" where
  "truthy (Fin q) = (q \<noteq> 0)"
| "truthy NaN = False"
| "truthy _ = True"

text \<open>\<open>ToNumber\<close> of a field that holds a number or \<open>undefined\<close>.\<close>

fun to_number :: "jsnum option \<Rightarrow> jsnum" where
  "to_number None = NaN"
| "to_number (Some x) = x"


section \<open>The drop and paste importer (class ImageDrop)\<close>

subsection \<open>The accepted MIME types\<close>

text \<open>
  \<open>file.type.match(/^image\/(gif|jpe?g|a?png|svg|webp|bmp|vnd\.microsoft\.icon)/i)\<close>:
  anchored at the start only, case-insensitive on the ASCII letters. The optional
  letters of \<open>jpe?g\<close> and \<open>a?png\<close> are written out as alternatives.
\<close>

definition ascii_upper :: "char \<Rightarrow> char" where
  "ascii_upper c =
     (let n = (of_char c :: nat) in if 97 \<le> n \<and> n \<le> 122 then char_of (n - 32) else c)"

fun starts_with_ci :: "string \<Rightarrow> string \<Rightarrow> bool" where
  "starts_with_ci [] s = True"
| "starts_with_ci (p # ps) [] = False"
| "starts_with_ci (p # ps) (c # cs) = (ascii_upper p = ascii_upper c \<and> starts_with_ci ps cs)"

definition image_subtypes :: "string list" where
  "image_subtypes =
     [''gif'', ''jpg'', ''jpeg'', ''png'', ''apng'', ''svg'', ''webp'', ''bmp'',
      ''vnd.microsoft.icon'']"

definition is_image_type :: "string \<Rightarrow> bool" where
  "is_image_type t = list_ex (\<lambda>sub. starts_with_ci (''image/'' @ sub) t) image_subtypes"

subsection \<open>The host editor\<close>

text \<open>
  The importer uses three capabilities of the host: \<open>getSelection()\<close>, \<open>getLength()\<close> and
  \<open>insertEmbed(index, kind, value, source)\<close>. The host is not part of the source; the
  model keeps its answers as fields and logs every \<open>insertEmbed\<close> call in order. What
  the host does to its selection and its length when it inserts is its own business:
  the model leaves both as they are, so that every call of one run is logged with the
  position that the unchanged selection and length give.
\<close>

datatype range = Range (index: nat) (span: nat)

record quill =
  selection :: "range option"
  doc_length :: nat
  embeds :: "(nat \<times> string \<times> string \<times> string) list"

definition getSelection :: "quill \<Rightarrow> range option" where
  "getSelection q = selection q"

definition getLength :: "quill \<Rightarrow> nat" where
  "getLength q = doc_length q"

definition insertEmbed :: "nat \<Rightarrow> string \<Rightarrow> string \<Rightarrow> string \<Rightarrow> quill \<Rightarrow> quill" where
  "insertEmbed i kind v source q = q\<lparr>embeds := embeds q @ [(i, kind, v, source)]\<rparr>"

text \<open>
  \<open>const index = (this.quill.getSelection() || {}).index || this.quill.getLength();\<close>
  The property read gives \<open>undefined\<close> on the empty object; \<open>||\<close> takes its right operand
  when the left one is falsy, and both \<open>undefined\<close> and \<open>0\<close> are falsy.
\<close>

definition insert_index :: "quill \<Rightarrow> nat" where
  "insert_index q =
     (case map_option index (getSelection q) of
        None \<Rightarrow> getLength q
      | Some i \<Rightarrow> if i \<noteq> 0 then i else getLength q)"

definition insert_img :: "string \<Rightarrow> quill \<Rightarrow> quill" where
  "insert_img dataUrl q = insertEmbed (insert_index q) ''image'' dataUrl ''user'' q"

subsection \<open>Files, readers and the task queue\<close>

text \<open>
  A blob carries the outcome of \<open>FileReader.readAsDataURL\<close> on it: \<open>Some url\<close> when the
  read loads (the only event the source listens to), \<open>None\<close> when it fails. An entry of a
  payload is a \<open>File\<close> of a drop (itself a blob, with no \<open>getAsFile\<close>) or an \<open>Item\<close> of
  the clipboard, whose \<open>getAsFile()\<close> gives a file or \<open>null\<close>.
\<close>

datatype blob = Blob (read_result: "string option")

datatype entry = File string blob | Item string "blob option"

fun entry_type :: "entry \<Rightarrow> string" where
  "entry_type (File t b) = t"
| "entry_type (Item t r) = t"

text \<open>\<open>file.getAsFile ? file.getAsFile() : file\<close>, kept when it is an instance of \<open>Blob\<close>.\<close>

fun as_blob :: "entry \<Rightarrow> blob option" where
  "as_blob (File t b) = Some b"
| "as_blob (Item t r) = r"

text \<open>
  The two callbacks handed to \<open>readFiles\<close>: \<open>this.insert.bind(this)\<close> from the drop
  handler and the arrow function of the paste handler. A pending task is a started read
  or the zero-delay timeout of the paste handler.
\<close>

datatype callback = InsertCb | PasteCb

datatype task = ReaderTask blob callback | TimeoutTask string

record world =
  host :: quill
  pending :: "task list"
  defaultPrevented :: bool

definition read_one :: "callback \<Rightarrow> entry \<Rightarrow> world \<Rightarrow> world" where
  "read_one cb file w =
     (if \<not> is_image_type (entry_type file) then w
      else case as_blob file of
             Some b \<Rightarrow> w\<lparr>pending := pending w @ [ReaderTask b cb]\<rparr>
           | None \<Rightarrow> w)"

fun readFiles :: "entry list \<Rightarrow> callback \<Rightarrow> world \<Rightarrow> world" where
  "readFiles [] cb w = w"
| "readFiles (file # files) cb w = readFiles files cb (read_one cb file w)"

text \<open>An event carries its payload, or nothing (\<open>evt.dataTransfer\<close> and the like unset).\<close>

definition handleDrop :: "entry list option \<Rightarrow> world \<Rightarrow> world" where
  "handleDrop files w =
     (let w1 = w\<lparr>defaultPrevented := True\<rparr> in
      case files of
        None \<Rightarrow> w1
      | Some fs \<Rightarrow> if fs \<noteq> [] then readFiles fs InsertCb w1 else w1)"

definition handlePaste :: "entry list option \<Rightarrow> world \<Rightarrow> world" where
  "handlePaste items w =
     (case items of
        None \<Rightarrow> w
      | Some fs \<Rightarrow> if fs \<noteq> [] then readFiles fs PasteCb w else w)"

definition paste_callback :: "string \<Rightarrow> world \<Rightarrow> world" where
  "paste_callback dataUrl w =
     (case getSelection (host w) of
        Some sel \<Rightarrow> w
      | None \<Rightarrow> w\<lparr>pending := pending w @ [TimeoutTask dataUrl]\<rparr>)"

fun run_callback :: "callback \<Rightarrow> string \<Rightarrow> world \<Rightarrow> world" where
  "run_callback InsertCb dataUrl w = w\<lparr>host := insert_img dataUrl (host w)\<rparr>"
| "run_callback PasteCb dataUrl w = paste_callback dataUrl w"

fun run_task :: "task \<Rightarrow> world \<Rightarrow> world" where
  "run_task (ReaderTask b cb) w =
     (case read_result b of Some dataUrl \<Rightarrow> run_callback cb dataUrl w | None \<Rightarrow> w)"
| "run_task (TimeoutTask dataUrl) w = w\<lparr>host := insert_img dataUrl (host w)\<rparr>"

text \<open>
  The event loop, run until no task is left, oldest task first. A read can schedule one
  timeout and a timeout schedules nothing, which is the measure of termination.
\<close>

fun task_weight :: "task \<Rightarrow> nat" where
  "task_weight (ReaderTask b cb) = 2"
| "task_weight (TimeoutTask u) = 1"

function drain :: "world \<Rightarrow> world" where
  "drain w =
     (case pending w of
        [] \<Rightarrow> w
      | t # ts \<Rightarrow> drain (run_task t (w\<lparr>pending := ts\<rparr>)))"
  by pat_completeness auto
termination
proof (relation "measure (\<lambda>w. sum_list (map task_weight (pending w)))")
  show "wf (measure (\<lambda>w. sum_list (map task_weight (pending w))))"
    by simp
next
  fix w :: world and t ts
  assume queue: "pending w = t # ts"
  have "sum_list (map task_weight (pending (run_task t (w\<lparr>pending := ts\<rparr>))))
          < task_weight t + sum_list (map task_weight ts)"
  proof (cases t)
    case (ReaderTask b cb)
    then show ?thesis
      by (cases cb; cases "read_result b")
         (auto simp: paste_callback_def split: option.splits)
  next
    case (TimeoutTask url)
    then show ?thesis by simp
  qed
  with queue show "(run_task t (w\<lparr>pending := ts\<rparr>), w)
               \<in> measure (\<lambda>w. sum_list (map task_weight (pending w)))"
    by simp
qed

declare drain.simps [simp del]


section \<open>The resize controller (class ImageResize)\<close>

subsection \<open>The document\<close>

text \<open>
  Elements are named by numbers and live in a store, so that \<open>this.img\<close>, \<open>this.boxes\<close>,
  \<open>this.display\<close> and \<open>this.dragBox\<close> are references into it. A style is the map from
  property names to the values assigned so far. A value \<open>Math.round(x) + 'px'\<close> is kept as
  \<open>Px (Math.round x)\<close>, and \<open>size.join(' &times; ')\<close> as the joined numbers with their
  separator, so that the numbers stay readable in the model. The \<open>width\<close> of an image
  holds the number last assigned to it.
\<close>

datatype js_error = TypeError | NotFoundError

datatype css_value = Css string | Px jsnum

datatype html = Html string | Joined "jsnum list" string

record rect =
  rect_left :: jsnum
  rect_top :: jsnum
  rect_width :: jsnum
  rect_height :: jsnum

record element =
  tagName :: string
  width :: jsnum
  naturalWidth :: jsnum
  naturalHeight :: jsnum
  style :: "string \<Rightarrow> css_value option"
  innerHTML :: html

datatype event_target = Document | Root | Element nat

datatype listener_fn = HandleClick | HandleMousedown | HandleMouseup | HandleDrag | CheckImage

type_synonym listener = "event_target \<times> string \<times> listener_fn \<times> bool"

record options =
  displaySize :: bool
  handleStyles :: "(string \<times> css_value) list option"
  displayStyles :: "(string \<times> css_value) list option"

text \<open>
  The page as the controller sees it: the element store, the children the controller
  appended to \<open>document.body\<close>, the registered listeners (target, type, function, capture
  flag), the styles of \<open>document.body\<close>, of the editor root and of \<open>document.documentElement\<close>,
  the scroll offsets, and the browser's layout: \<open>getBoundingClientRect\<close> of an element as a
  function of its name and current properties.
\<close>

record page =
  elements :: "nat \<Rightarrow> element"
  next_id :: nat
  body_children :: "nat list"
  listeners :: "listener list"
  body_style :: "string \<Rightarrow> css_value option"
  root_style :: "string \<Rightarrow> css_value option"
  html_style :: "string \<Rightarrow> css_value option"
  pageXOffset :: jsnum
  pageYOffset :: jsnum
  layout :: "nat \<Rightarrow> element \<Rightarrow> rect"

record resizer = page +
  options :: options
  img :: "nat option"
  boxes :: "nat list"
  display :: "nat option"
  dragBox :: "nat option"
  dragStartX :: "jsnum option"
  preDragWidth :: "jsnum option"

record mouse_event =
  target :: "nat option"
  clientX :: jsnum

text \<open>
  A method returns the state it leaves behind together with the exception it threw, if
  any: what was mutated before a \<open>throw\<close> stays mutated.
\<close>

type_synonym outcome = "js_error option \<times> resizer"

definition ok :: "(resizer \<Rightarrow> resizer) \<Rightarrow> resizer \<Rightarrow> outcome" where
  "ok f s = (None, f s)"

fun steps :: "(resizer \<Rightarrow> outcome) list \<Rightarrow> resizer \<Rightarrow> outcome" where
  "steps [] s = (None, s)"
| "steps (f # fs) s = (case f s of (None, s') \<Rightarrow> steps fs s' | (Some e, s') \<Rightarrow> (Some e, s'))"

text \<open>Statements that cannot throw, one after the other.\<close>

definition run :: "(resizer \<Rightarrow> resizer) list \<Rightarrow> resizer \<Rightarrow> resizer" where
  "run fs s = fold (\<lambda>f x. f x) fs s"

subsection \<open>DOM operations\<close>

text \<open>
  \<open>addEventListener\<close> ignores a listener that is already registered with the same type,
  function and capture flag; \<open>removeEventListener\<close> removes the listener with exactly the
  given type, function and capture flag, and the flag is \<open>false\<close> when the call leaves it out.
\<close>

definition add_listener :: "listener \<Rightarrow> listener list \<Rightarrow> listener list" where
  "add_listener l ls = (if l \<in> set ls then ls else ls @ [l])"

definition addEventListener ::
  "event_target \<Rightarrow> string \<Rightarrow> listener_fn \<Rightarrow> bool \<Rightarrow> resizer \<Rightarrow> resizer" where
  "addEventListener t ty fn capture s =
     s\<lparr>listeners := add_listener (t, ty, fn, capture) (listeners s)\<rparr>"

definition removeEventListener ::
  "event_target \<Rightarrow> string \<Rightarrow> listener_fn \<Rightarrow> bool \<Rightarrow> resizer \<Rightarrow> resizer" where
  "removeEventListener t ty fn capture s =
     s\<lparr>listeners := removeAll (t, ty, fn, capture) (listeners s)\<rparr>"

text \<open>
  A \<open>div\<close> has no width and no natural size: read as numbers they are \<open>NaN\<close>.
\<close>

definition new_div :: element where
  "new_div = \<lparr>tagName = ''DIV'', width = NaN, naturalWidth = NaN, naturalHeight = NaN,
              style = (\<lambda>p. None), innerHTML = Html []\<rparr>"

definition update_element :: "nat \<Rightarrow> (element \<Rightarrow> element) \<Rightarrow> resizer \<Rightarrow> resizer" where
  "update_element n f s = s\<lparr>elements := (elements s)(n := f (elements s n))\<rparr>"

text \<open>
  \<open>document.createElement('div')\<close> takes the next free name; the new element is
  \<open>next_id\<close> of the state before. \<open>document.body.appendChild\<close> is only ever called on an
  element just created, which has no parent yet.
\<close>

definition createElement :: "resizer \<Rightarrow> resizer" where
  "createElement s = s\<lparr>elements := (elements s)(next_id s := new_div), next_id := Suc (next_id s)\<rparr>"

definition appendChild :: "nat \<Rightarrow> resizer \<Rightarrow> resizer" where
  "appendChild n s = s\<lparr>body_children := body_children s @ [n]\<rparr>"

text \<open>
  \<open>document.body.removeChild(node)\<close>: a \<open>TypeError\<close> when the argument is not a node
  (\<open>undefined\<close>), a \<open>NotFoundError\<close> when the node is not a child of the body.
\<close>

definition removeChild :: "nat option \<Rightarrow> resizer \<Rightarrow> outcome" where
  "removeChild node s =
     (case node of
        None \<Rightarrow> (Some TypeError, s)
      | Some n \<Rightarrow>
          if n \<in> set (body_children s)
          then (None, s\<lparr>body_children := remove1 n (body_children s)\<rparr>)
          else (Some NotFoundError, s))"

text \<open>
  \<open>extend(destination, ...sources)\<close> copies every own property of every source, in order.
\<close>

definition extend_props ::
  "(string \<Rightarrow> css_value option) \<Rightarrow> (string \<times> css_value) list list \<Rightarrow> string \<Rightarrow> css_value option"
  where
  "extend_props destination sources =
     fold (\<lambda>source dest. fold (\<lambda>(prop, v) d. d(prop \<mapsto> v)) source dest) sources destination"

definition extend_style :: "nat \<Rightarrow> (string \<times> css_value) list list \<Rightarrow> resizer \<Rightarrow> resizer" where
  "extend_style n sources s =
     update_element n (\<lambda>e. e\<lparr>style := extend_props (style e) sources\<rparr>) s"

definition or_empty :: "(string \<times> css_value) list option \<Rightarrow> (string \<times> css_value) list" where
  "or_empty src = (case src of None \<Rightarrow> [] | Some props \<Rightarrow> props)"

definition get_prop :: "(string \<Rightarrow> css_value option) \<Rightarrow> string \<Rightarrow> css_value" where
  "get_prop st prop = (case st prop of None \<Rightarrow> Css [] | Some v \<Rightarrow> v)"

subsection \<open>The methods\<close>

text \<open>
  The constructor keeps the options, starts with no handles and nothing selected, and
  listens for clicks on the editor root. Its call of \<open>document.execCommand\<close>, which turns
  off the native resizing of Firefox, touches nothing that the model holds.
\<close>

definition ImageResize :: "options \<Rightarrow> page \<Rightarrow> resizer" where
  "ImageResize opts p =
     addEventListener Root ''click'' HandleClick False
       \<lparr>elements = elements p, next_id = next_id p, body_children = body_children p,
        listeners = listeners p, body_style = body_style p, root_style = root_style p,
        html_style = html_style p, pageXOffset = pageXOffset p, pageYOffset = pageYOffset p,
        layout = layout p,
        options = opts, img = None, boxes = [], display = None, dragBox = None,
        dragStartX = None, preDragWidth = None\<rparr>"

definition setUserSelect :: "string \<Rightarrow> resizer \<Rightarrow> resizer" where
  "setUserSelect v s =
     fold (\<lambda>prop s. (s\<lparr>root_style := (root_style s)(prop \<mapsto> Css v)\<rparr>)
                       \<lparr>html_style := (html_style s)(prop \<mapsto> Css v)\<rparr>)
       [''userSelect'', ''mozUserSelect'', ''webkitUserSelect'', ''msUserSelect''] s"

text \<open>
  \<open>[document.body, this.img, this.quill.root].forEach(el => el.style.cursor = value)\<close>:
  the body is done when \<open>this.img\<close> turns out to be \<open>undefined\<close>.
\<close>

definition setCursor :: "css_value \<Rightarrow> resizer \<Rightarrow> outcome" where
  "setCursor v s =
     (let s1 = s\<lparr>body_style := (body_style s)(''cursor'' \<mapsto> v)\<rparr> in
      case img s1 of
        None \<Rightarrow> (Some TypeError, s1)
      | Some i \<Rightarrow>
          (let s2 = extend_style i [ [(''cursor'', v)] ] s1
           in (None, s2\<lparr>root_style := (root_style s2)(''cursor'' \<mapsto> v)\<rparr>)))"

definition box_styles :: "string \<Rightarrow> (string \<times> css_value) list" where
  "box_styles cursor =
     [(''position'', Css ''absolute''), (''height'', Css ''12px''),
      (''width'', Css ''12px''), (''backgroundColor'', Css ''white''),
      (''border'', Css ''1px solid #777''), (''boxSizing'', Css ''border-box''),
      (''opacity'', Css ''0.80''), (''cursor'', Css cursor)]"

definition addBox :: "string \<Rightarrow> resizer \<Rightarrow> resizer" where
  "addBox cursor s =
     (let box = next_id s in
      run [createElement,
           (\<lambda>s. extend_style box [box_styles cursor, or_empty (handleStyles (options s))] s),
           addEventListener (Element box) ''mousedown'' HandleMousedown False,
           appendChild box,
           (\<lambda>s. s\<lparr>boxes := boxes s @ [box]\<rparr>)] s)"

definition showResizers :: "resizer \<Rightarrow> resizer" where
  "showResizers =
     run [setUserSelect ''none'',
          addBox ''nwse-resize'',
          addBox ''nesw-resize'',
          addBox ''nwse-resize'',
          addBox ''nesw-resize'',
          addEventListener Document ''keyup'' CheckImage True,
          addEventListener Root ''input'' CheckImage True]"

fun remove_each :: "nat list \<Rightarrow> resizer \<Rightarrow> outcome" where
  "remove_each [] s = (None, s)"
| "remove_each (box # rest) s =
     (case removeChild (Some box) s of
        (None, s') \<Rightarrow> remove_each rest s'
      | (Some e, s') \<Rightarrow> (Some e, s'))"

definition hideResizers :: "resizer \<Rightarrow> outcome" where
  "hideResizers =
     steps
       [ok (removeEventListener Document ''keyup'' CheckImage False),
        ok (removeEventListener Root ''input'' CheckImage False),
        ok (setUserSelect []),
        setCursor (Css []),
        (\<lambda>s. remove_each (boxes s) s),
        ok (\<lambda>s. s\<lparr>dragBox := None\<rparr>),
        ok (\<lambda>s. s\<lparr>dragStartX := None\<rparr>),
        ok (\<lambda>s. s\<lparr>preDragWidth := None\<rparr>),
        ok (\<lambda>s. s\<lparr>boxes := []\<rparr>)]"

definition display_styles :: "(string \<times> css_value) list" where
  "display_styles =
     [(''position'', Css ''absolute''),
      (''font'', Css ''12px/1.0 Arial, Helvetica, sans-serif''),
      (''padding'', Css ''4px 8px''), (''textAlign'', Css ''center''),
      (''backgroundColor'', Css ''white''), (''color'', Css ''#333''),
      (''border'', Css ''1px solid #777''), (''boxSizing'', Css ''border-box''),
      (''opacity'', Css ''0.80''), (''cursor'', Css ''default'')]"

definition showSizeDisplay :: "resizer \<Rightarrow> resizer" where
  "showSizeDisplay s =
     (if \<not> displaySize (options s) then s
      else
        let d = next_id s in
        run [createElement,
             (\<lambda>s. s\<lparr>display := Some d\<rparr>),
             (\<lambda>s. extend_style d [display_styles, or_empty (displayStyles (options s))] s),
             appendChild d] s)"

definition hideSizeDisplay :: "resizer \<Rightarrow> outcome" where
  "hideSizeDisplay = steps [(\<lambda>s. removeChild (display s) s), ok (\<lambda>s. s\<lparr>display := None\<rparr>)]"

definition hide :: "resizer \<Rightarrow> outcome" where
  "hide = steps [hideResizers, hideSizeDisplay, ok (\<lambda>s. s\<lparr>img := None\<rparr>)]"

text \<open>
  \<open>positionBoxes\<close>: the four corners in the order of the handles (top left, top right,
  bottom right, bottom left); \<open>this.boxes[idx].style\<close> throws where there is no such handle.
\<close>

fun position_each :: "(jsnum \<times> jsnum) list \<Rightarrow> nat \<Rightarrow> resizer \<Rightarrow> outcome" where
  "position_each [] idx s = (None, s)"
| "position_each ((pos_left, pos_top) # rest) idx s =
     (if idx < length (boxes s)
      then position_each rest (Suc idx)
             (extend_style (boxes s ! idx)
                [ [(''top'', Px (js_round (js_add pos_top (pageYOffset s)))),
                  (''left'', Px (js_round (js_add pos_left (pageXOffset s)))) ] ] s)
      else (Some TypeError, s))"

definition positionBoxes :: "rect \<Rightarrow> resizer \<Rightarrow> outcome" where
  "positionBoxes r s =
     position_each
       [(js_sub (rect_left r) (Fin 6), js_sub (rect_top r) (Fin 6)),
        (js_sub (js_add (rect_left r) (rect_width r)) (Fin 6), js_sub (rect_top r) (Fin 6)),
        (js_sub (js_add (rect_left r) (rect_width r)) (Fin 6),
         js_sub (js_add (rect_top r) (rect_height r)) (Fin 6)),
        (js_sub (rect_left r) (Fin 6), js_sub (js_add (rect_top r) (rect_height r)) (Fin 6))]
       0 s"

text \<open>
  \<open>getCurrentSize\<close> of the selected image:
  \<open>[img.width, Math.round(img.width / img.naturalWidth * img.naturalHeight)]\<close>, the
  quotient first, then the product, each rounded to a binary64 value.
\<close>

definition getCurrentSize :: "element \<Rightarrow> jsnum \<times> jsnum" where
  "getCurrentSize e =
     (width e, js_round (js_mul (js_div (width e) (naturalWidth e)) (naturalHeight e)))"

definition positionSizeDisplay :: "rect \<Rightarrow> resizer \<Rightarrow> outcome" where
  "positionSizeDisplay r s =
     (case (display s, img s) of
        (Some d, Some i) \<Rightarrow>
          (let (w, h) = getCurrentSize (elements s i);
               s1 = update_element d (\<lambda>e. e\<lparr>innerHTML := Joined [w, h] '' &times; ''\<rparr>) s
           in if js_gt w (Fin 120) \<and> js_gt h (Fin 30)
              then
                (let dispRect = layout s1 d (elements s1 d)
                 in (None, extend_style d
                       [ [(''left'', Px (js_round (js_sub (js_sub
                            (js_add (js_add (rect_left r) (rect_width r)) (pageXOffset s1))
                            (rect_width dispRect)) (Fin 8)))),
                         (''top'', Px (js_round (js_sub (js_sub
                            (js_add (js_add (rect_top r) (rect_height r)) (pageYOffset s1))
                            (rect_height dispRect)) (Fin 8)))) ] ] s1))
              else
                (None, extend_style d
                   [ [(''left'', Px (js_round (js_add
                        (js_add (js_add (rect_left r) (rect_width r)) (pageXOffset s1)) (Fin 8)))),
                     (''top'', Px (js_round (js_add
                        (js_add (js_add (rect_top r) (rect_height r)) (pageYOffset s1)) (Fin 8)))) ] ]
                   s1))
      | _ \<Rightarrow> (None, s))"

definition reposition :: "nat \<Rightarrow> resizer \<Rightarrow> outcome" where
  "reposition i s =
     (let r = layout s i (elements s i) in steps [positionBoxes r, positionSizeDisplay r] s)"

definition show_img :: "nat \<Rightarrow> resizer \<Rightarrow> outcome" where
  "show_img i =
     steps [ok (\<lambda>s. s\<lparr>img := Some i\<rparr>), ok showResizers, ok showSizeDisplay, reposition i]"

text \<open>
  \<open>evt.target && evt.target.tagName && evt.target.tagName.toUpperCase() == 'IMG'\<close>:
  the clicked image, if the click landed on one.
\<close>

definition is_img_tag :: "string \<Rightarrow> bool" where
  "is_img_tag tag = (tag \<noteq> [] \<and> map ascii_upper tag = ''IMG'')"

definition clicked_img :: "mouse_event \<Rightarrow> resizer \<Rightarrow> nat option" where
  "clicked_img evt s =
     (case target evt of
        None \<Rightarrow> None
      | Some n \<Rightarrow> if is_img_tag (tagName (elements s n)) then Some n else None)"

definition handleClick :: "mouse_event \<Rightarrow> resizer \<Rightarrow> outcome" where
  "handleClick evt s =
     (case clicked_img evt s of
        Some t \<Rightarrow>
          if img s = Some t then (None, s)
          else steps [(\<lambda>s. if img s \<noteq> None then hide s else (None, s)), show_img t] s
      | None \<Rightarrow> if img s \<noteq> None then hide s else (None, s))"

definition checkImage :: "resizer \<Rightarrow> outcome" where
  "checkImage s = (if img s \<noteq> None then hide s else (None, s))"

text \<open>
  \<open>handleMousedown\<close>: \<open>this.img.width\<close> and \<open>this.dragBox.style.cursor\<close> throw on
  \<open>undefined\<close>; \<open>a || b\<close> is \<open>b\<close> when \<open>a\<close> is falsy.
\<close>

definition handleMousedown :: "mouse_event \<Rightarrow> resizer \<Rightarrow> outcome" where
  "handleMousedown evt s =
     (let s1 = s\<lparr>dragBox := target evt\<rparr>;
          s2 = s1\<lparr>dragStartX := Some (clientX evt)\<rparr>
      in case img s2 of
           None \<Rightarrow> (Some TypeError, s2)
         | Some i \<Rightarrow>
             (let e = elements s2 i;
                  s3 = s2\<lparr>preDragWidth :=
                         Some (if truthy (width e) then width e else naturalWidth e)\<rparr>
              in case dragBox s3 of
                   None \<Rightarrow> (Some TypeError, s3)
                 | Some b \<Rightarrow>
                     steps
                       [setCursor (get_prop (style (elements s3 b)) ''cursor''),
                        ok (addEventListener Document ''mousemove'' HandleDrag False),
                        ok (addEventListener Document ''mouseup'' HandleMouseup False)] s3))"

definition handleMouseup :: "resizer \<Rightarrow> outcome" where
  "handleMouseup =
     steps
       [setCursor (Css []),
        ok (removeEventListener Document ''mousemove'' HandleDrag False),
        ok (removeEventListener Document ''mouseup'' HandleMouseup False)]"

text \<open>
  \<open>this.boxes[0]\<close> is \<open>undefined\<close> on an empty array, and \<open>==\<close> holds between two
  \<open>undefined\<close>; between two elements it is identity.
\<close>

definition box_at :: "resizer \<Rightarrow> nat \<Rightarrow> nat option" where
  "box_at s idx = (if idx < length (boxes s) then Some (boxes s ! idx) else None)"

definition handleDrag :: "mouse_event \<Rightarrow> resizer \<Rightarrow> outcome" where
  "handleDrag evt s =
     (case img s of
        None \<Rightarrow> (None, s)
      | Some i \<Rightarrow>
          (let w =
                 (if dragBox s = box_at s 0 \<or> dragBox s = box_at s 3
                  then js_round (js_sub (js_sub (to_number (preDragWidth s)) (clientX evt))
                                   (to_number (dragStartX s)))
                  else js_round (js_sub (js_add (to_number (preDragWidth s)) (clientX evt))
                                   (to_number (dragStartX s))));
               s1 = update_element i (\<lambda>e. e\<lparr>width := w\<rparr>) s
           in reposition i s1))"


section \<open>Example pages\<close>

text \<open>
  A page with a paragraph (element 0) and two images: a photo of natural size 800 x 600
  shown 402 pixels wide (element 1) and a banner of natural size 200 x 100 (element 2).
  The layout puts every image at (10, 20) with its current width and a height of 50, and
  gives any other element a box of 60 x 20.
\<close>

definition text_block :: element where
  "text_block = \<lparr>tagName = ''P'', width = NaN, naturalWidth = NaN, naturalHeight = NaN,
                style = (\<lambda>p. None), innerHTML = Html []\<rparr>"

definition photo :: element where
  "photo = \<lparr>tagName = ''IMG'', width = Fin 402, naturalWidth = Fin 800, naturalHeight = Fin 600,
            style = (\<lambda>p. None), innerHTML = Html []\<rparr>"

definition banner :: element where
  "banner = \<lparr>tagName = ''img'', width = Fin 200, naturalWidth = Fin 200, naturalHeight = Fin 100,
             style = (\<lambda>p. None), innerHTML = Html []\<rparr>"

definition demo_layout :: "nat \<Rightarrow> element \<Rightarrow> rect" where
  "demo_layout n e =
     (if is_img_tag (tagName e)
      then \<lparr>rect_left = Fin 10, rect_top = Fin 20, rect_width = width e, rect_height = Fin 50\<rparr>
      else \<lparr>rect_left = Fin 0, rect_top = Fin 0, rect_width = Fin 60, rect_height = Fin 20\<rparr>)"

definition demo_page :: page where
  "demo_page =
     \<lparr>elements = (\<lambda>n. if n = 1 then photo else if n = 2 then banner else text_block),
      next_id = 3, body_children = [], listeners = [],
      body_style = (\<lambda>p. None), root_style = (\<lambda>p. None), html_style = (\<lambda>p. None),
      pageXOffset = Fin 0, pageYOffset = Fin 0, layout = demo_layout\<rparr>"

text \<open>The options of the README (\<open>displaySize: true\<close>) and the default ones (\<open>{}\<close>).\<close>

definition readme_options :: options where
  "readme_options = \<lparr>displaySize = True, handleStyles = None, displayStyles = None\<rparr>"

definition default_options :: options where
  "default_options = \<lparr>displaySize = False, handleStyles = None, displayStyles = None\<rparr>"

definition mouse_at :: "nat \<Rightarrow> rat \<Rightarrow> mouse_event" where
  "mouse_at n x = \<lparr>target = Some n, clientX = Fin x\<rparr>"

text \<open>
  The states of the examples: the controller just constructed, with the default options
  and with those of the README; after a click on the photo; after a mousedown at
  \<open>clientX = 100\<close> on the top left handle (element 3) and on the top right handle
  (element 4).
\<close>

definition idle_default :: resizer where
  "idle_default = ImageResize default_options demo_page"

definition idle_readme :: resizer where
  "idle_readme = ImageResize readme_options demo_page"

definition selected_default :: resizer where
  "selected_default = snd (handleClick (mouse_at 1 0) idle_default)"

definition selected_readme :: resizer where
  "selected_readme = snd (handleClick (mouse_at 1 0) idle_readme)"

definition dragging_left :: resizer where
  "dragging_left = snd (handleMousedown (mouse_at 3 100) selected_readme)"

definition dragging_right :: resizer where
  "dragging_right = snd (handleMousedown (mouse_at 4 100) selected_readme)"

text \<open>
  A host with ten characters, the cursor at the very start or no selection at all, and
  the importer with nothing in flight.
\<close>

definition quill_at_start :: quill where
  "quill_at_start = \<lparr>selection = Some (Range 0 0), doc_length = 10, embeds = []\<rparr>"

definition quill_unfocused :: quill where
  "quill_unfocused = \<lparr>selection = None, doc_length = 10, embeds = []\<rparr>"

definition world_at_start :: world where
  "world_at_start = \<lparr>host = quill_at_start, pending = [], defaultPrevented = False\<rparr>"

definition world_unfocused :: world where
  "world_unfocused = \<lparr>host = quill_unfocused, pending = [], defaultPrevented = False\<rparr>"

section \<open>Auxiliary notions\<close>

text \<open>
  The attributes of an element that no style or content assignment touches, and the effect
  of removing a list of nodes from the children of the body, one after the other.
\<close>

definition attrs :: "element \<Rightarrow> string \<times> jsnum \<times> jsnum \<times> jsnum" where
  "attrs e = (tagName e, width e, naturalWidth e, naturalHeight e)"

fun remove_children :: "nat list \<Rightarrow> nat list \<Rightarrow> js_error option \<times> nat list" where
  "remove_children [] cs = (None, cs)"
| "remove_children (b # bs) cs =
     (if b \<in> set cs then remove_children bs (remove1 b cs) else (Some NotFoundError, cs))"

text \<open>
  The blobs of a payload that pass the type test, and the data URIs of those whose read
  loads.
\<close>

definition accepted_blobs :: "entry list \<Rightarrow> blob list" where
  "accepted_blobs fs =
     List.map_filter (\<lambda>f. if is_image_type (entry_type f) then as_blob f else None) fs"

definition loaded_urls :: "entry list \<Rightarrow> string list" where
  "loaded_urls fs = List.map_filter read_result (accepted_blobs fs)"

text \<open>
  The height of the size display in the words of the specification:
  \<open>round(width \<times> naturalHeight / naturalWidth)\<close>.
\<close>

definition claimed_height :: "element \<Rightarrow> jsnum" where
  "claimed_height e = js_round (js_div (js_mul (width e) (naturalHeight e)) (naturalWidth e))"


section \<open>What each method changes\<close>

subsection \<open>Sequencing\<close>

lemma fst_ok: "fst (ok f s) = None"
  by (simp add: ok_def)

lemma snd_ok: "snd (ok f s) = f s"
  by (simp add: ok_def)

lemma steps_Cons_if:
  "steps (f # fs) s = (if fst (f s) = None then steps fs (snd (f s)) else f s)"
  by (cases "f s") (auto split: option.splits)

declare steps.simps(2) [simp del]

lemma run_Nil: "run [] s = s"
  by (simp add: run_def)

lemma run_Cons: "run (f # fs) s = run fs (f s)"
  by (simp add: run_def)

subsection \<open>Showing the handles and the size display\<close>

lemma addBox_frame:
  "body_style (addBox c s) = body_style s"
  "root_style (addBox c s) = root_style s"
  "html_style (addBox c s) = html_style s"
  "pageXOffset (addBox c s) = pageXOffset s"
  "pageYOffset (addBox c s) = pageYOffset s"
  "layout (addBox c s) = layout s"
  "options (addBox c s) = options s"
  "img (addBox c s) = img s"
  "display (addBox c s) = display s"
  "dragBox (addBox c s) = dragBox s"
  "dragStartX (addBox c s) = dragStartX s"
  "preDragWidth (addBox c s) = preDragWidth s"
  by (simp_all add: addBox_def run_def createElement_def extend_style_def update_element_def addEventListener_def appendChild_def Let_def)

lemma addBox_effect:
  "next_id (addBox c s) = Suc (next_id s)"
  "body_children (addBox c s) = body_children s @ [next_id s]"
  "boxes (addBox c s) = boxes s @ [next_id s]"
  "listeners (addBox c s) =
     add_listener (Element (next_id s), ''mousedown'', HandleMousedown, False) (listeners s)"
  by (simp_all add: addBox_def run_def createElement_def extend_style_def update_element_def
      addEventListener_def appendChild_def Let_def)

lemma addBox_elements: "m < next_id s \<Longrightarrow> elements (addBox c s) m = elements s m"
  by (simp add: addBox_def run_def createElement_def extend_style_def update_element_def
      addEventListener_def appendChild_def Let_def)

lemma setUserSelect_frame:
  "elements (setUserSelect v s) = elements s"
  "next_id (setUserSelect v s) = next_id s"
  "body_children (setUserSelect v s) = body_children s"
  "listeners (setUserSelect v s) = listeners s"
  "body_style (setUserSelect v s) = body_style s"
  "pageXOffset (setUserSelect v s) = pageXOffset s"
  "pageYOffset (setUserSelect v s) = pageYOffset s"
  "layout (setUserSelect v s) = layout s"
  "options (setUserSelect v s) = options s"
  "img (setUserSelect v s) = img s"
  "boxes (setUserSelect v s) = boxes s"
  "display (setUserSelect v s) = display s"
  "dragBox (setUserSelect v s) = dragBox s"
  "dragStartX (setUserSelect v s) = dragStartX s"
  "preDragWidth (setUserSelect v s) = preDragWidth s"
  by (simp_all add: setUserSelect_def)

lemma showResizers_frame:
  "body_style (showResizers s) = body_style s"
  "pageXOffset (showResizers s) = pageXOffset s"
  "pageYOffset (showResizers s) = pageYOffset s"
  "layout (showResizers s) = layout s"
  "options (showResizers s) = options s"
  "img (showResizers s) = img s"
  "display (showResizers s) = display s"
  "dragBox (showResizers s) = dragBox s"
  "dragStartX (showResizers s) = dragStartX s"
  "preDragWidth (showResizers s) = preDragWidth s"
  by (simp_all add: showResizers_def run_Nil run_Cons addBox_frame setUserSelect_frame addEventListener_def)

lemma showResizers_effect:
  "next_id (showResizers s) = next_id s + 4"
  "body_children (showResizers s) =
     body_children s @ [next_id s, next_id s + 1, next_id s + 2, next_id s + 3]"
  "boxes (showResizers s) = boxes s @ [next_id s, next_id s + 1, next_id s + 2, next_id s + 3]"
  "listeners (showResizers s) =
     add_listener (Root, ''input'', CheckImage, True)
      (add_listener (Document, ''keyup'', CheckImage, True)
        (add_listener (Element (next_id s + 3), ''mousedown'', HandleMousedown, False)
          (add_listener (Element (next_id s + 2), ''mousedown'', HandleMousedown, False)
            (add_listener (Element (next_id s + 1), ''mousedown'', HandleMousedown, False)
              (add_listener (Element (next_id s), ''mousedown'', HandleMousedown, False)
                (listeners s))))))"
  by (simp_all add: showResizers_def run_Nil run_Cons addBox_frame addBox_effect
      setUserSelect_frame addEventListener_def eval_nat_numeral)

lemma showResizers_elements: "m < next_id s \<Longrightarrow> elements (showResizers s) m = elements s m"
  by (simp add: showResizers_def run_Nil run_Cons addBox_elements addBox_effect
      setUserSelect_frame addEventListener_def)

lemma showSizeDisplay_frame:
  "listeners (showSizeDisplay s) = listeners s"
  "body_style (showSizeDisplay s) = body_style s"
  "root_style (showSizeDisplay s) = root_style s"
  "html_style (showSizeDisplay s) = html_style s"
  "pageXOffset (showSizeDisplay s) = pageXOffset s"
  "pageYOffset (showSizeDisplay s) = pageYOffset s"
  "layout (showSizeDisplay s) = layout s"
  "options (showSizeDisplay s) = options s"
  "img (showSizeDisplay s) = img s"
  "boxes (showSizeDisplay s) = boxes s"
  "dragBox (showSizeDisplay s) = dragBox s"
  "dragStartX (showSizeDisplay s) = dragStartX s"
  "preDragWidth (showSizeDisplay s) = preDragWidth s"
  by (simp_all add: showSizeDisplay_def run_def createElement_def extend_style_def update_element_def appendChild_def Let_def)

lemma showSizeDisplay_effect:
  "next_id (showSizeDisplay s) = (if displaySize (options s) then Suc (next_id s) else next_id s)"
  "body_children (showSizeDisplay s) =
     (if displaySize (options s) then body_children s @ [next_id s] else body_children s)"
  "display (showSizeDisplay s) =
     (if displaySize (options s) then Some (next_id s) else display s)"
  by (simp_all add: showSizeDisplay_def run_def createElement_def extend_style_def
      update_element_def appendChild_def Let_def)

lemma showSizeDisplay_elements:
  "m < next_id s \<Longrightarrow> elements (showSizeDisplay s) m = elements s m"
  by (simp add: showSizeDisplay_def run_def createElement_def extend_style_def
      update_element_def appendChild_def Let_def)

subsection \<open>Positioning\<close>

lemma attrs_style_update: "attrs (e\<lparr>style := st\<rparr>) = attrs e"
  by (simp add: attrs_def)

lemma attrs_innerHTML_update: "attrs (e\<lparr>innerHTML := h\<rparr>) = attrs e"
  by (simp add: attrs_def)

lemma extend_style_frame:
  "next_id (extend_style n srcs s) = next_id s"
  "body_children (extend_style n srcs s) = body_children s"
  "listeners (extend_style n srcs s) = listeners s"
  "body_style (extend_style n srcs s) = body_style s"
  "root_style (extend_style n srcs s) = root_style s"
  "html_style (extend_style n srcs s) = html_style s"
  "pageXOffset (extend_style n srcs s) = pageXOffset s"
  "pageYOffset (extend_style n srcs s) = pageYOffset s"
  "layout (extend_style n srcs s) = layout s"
  "options (extend_style n srcs s) = options s"
  "img (extend_style n srcs s) = img s"
  "boxes (extend_style n srcs s) = boxes s"
  "display (extend_style n srcs s) = display s"
  "dragBox (extend_style n srcs s) = dragBox s"
  "dragStartX (extend_style n srcs s) = dragStartX s"
  "preDragWidth (extend_style n srcs s) = preDragWidth s"
  by (simp_all add: extend_style_def update_element_def)

lemma extend_style_attrs: "attrs (elements (extend_style n srcs s) m) = attrs (elements s m)"
  by (simp add: extend_style_def update_element_def attrs_style_update)

lemma extend_style_innerHTML:
  "innerHTML (elements (extend_style n srcs s) m) = innerHTML (elements s m)"
  by (simp add: extend_style_def update_element_def)

lemma position_each_frame_all:
  "(let s' = snd (position_each ps idx s) in
      next_id s' = next_id s \<and> body_children s' = body_children s \<and> listeners s' = listeners s
    \<and> body_style s' = body_style s \<and> root_style s' = root_style s \<and> html_style s' = html_style s
    \<and> pageXOffset s' = pageXOffset s \<and> pageYOffset s' = pageYOffset s \<and> layout s' = layout s
    \<and> options s' = options s \<and> img s' = img s \<and> boxes s' = boxes s \<and> display s' = display s
    \<and> dragBox s' = dragBox s \<and> dragStartX s' = dragStartX s \<and> preDragWidth s' = preDragWidth s
    \<and> (\<forall>m. attrs (elements s' m) = attrs (elements s m))
    \<and> (\<forall>m. innerHTML (elements s' m) = innerHTML (elements s m)))"
proof (induction ps idx s rule: position_each.induct)
  case (1 idx s)
  show ?case by simp
next
  case (2 pos_left pos_top rest idx s)
  show ?case
  proof (cases "idx < length (boxes s)")
    case True
    with "2.IH" show ?thesis
      by (simp add: Let_def extend_style_frame extend_style_attrs extend_style_innerHTML)
  next
    case False
    then show ?thesis by simp
  qed
qed

lemma position_each_frame:
  "next_id (snd (position_each ps idx s)) = next_id s"
  "body_children (snd (position_each ps idx s)) = body_children s"
  "listeners (snd (position_each ps idx s)) = listeners s"
  "body_style (snd (position_each ps idx s)) = body_style s"
  "root_style (snd (position_each ps idx s)) = root_style s"
  "html_style (snd (position_each ps idx s)) = html_style s"
  "pageXOffset (snd (position_each ps idx s)) = pageXOffset s"
  "pageYOffset (snd (position_each ps idx s)) = pageYOffset s"
  "layout (snd (position_each ps idx s)) = layout s"
  "options (snd (position_each ps idx s)) = options s"
  "img (snd (position_each ps idx s)) = img s"
  "boxes (snd (position_each ps idx s)) = boxes s"
  "display (snd (position_each ps idx s)) = display s"
  "dragBox (snd (position_each ps idx s)) = dragBox s"
  "dragStartX (snd (position_each ps idx s)) = dragStartX s"
  "preDragWidth (snd (position_each ps idx s)) = preDragWidth s"
  using position_each_frame_all [of ps idx s] by (simp_all add: Let_def)

lemma position_each_attrs:
  "attrs (elements (snd (position_each ps idx s)) m) = attrs (elements s m)"
  using position_each_frame_all [of ps idx s] by (simp add: Let_def)

lemma position_each_innerHTML:
  "innerHTML (elements (snd (position_each ps idx s)) m) = innerHTML (elements s m)"
  using position_each_frame_all [of ps idx s] by (simp add: Let_def)

lemma position_each_fst:
  "fst (position_each ps idx s) =
     (if ps = [] \<or> idx + length ps \<le> length (boxes s) then None else Some TypeError)"
proof (induction ps idx s rule: position_each.induct)
  case (1 idx s)
  show ?case by simp
next
  case (2 pos_left pos_top rest idx s)
  show ?case
  proof (cases "idx < length (boxes s)")
    case True
    with "2.IH" show ?thesis
      by (auto simp: extend_style_frame)
  next
    case False
    then show ?thesis by simp
  qed
qed

lemma positionBoxes_frame:
  "next_id (snd (positionBoxes r s)) = next_id s"
  "body_children (snd (positionBoxes r s)) = body_children s"
  "listeners (snd (positionBoxes r s)) = listeners s"
  "body_style (snd (positionBoxes r s)) = body_style s"
  "root_style (snd (positionBoxes r s)) = root_style s"
  "html_style (snd (positionBoxes r s)) = html_style s"
  "pageXOffset (snd (positionBoxes r s)) = pageXOffset s"
  "pageYOffset (snd (positionBoxes r s)) = pageYOffset s"
  "layout (snd (positionBoxes r s)) = layout s"
  "options (snd (positionBoxes r s)) = options s"
  "img (snd (positionBoxes r s)) = img s"
  "boxes (snd (positionBoxes r s)) = boxes s"
  "display (snd (positionBoxes r s)) = display s"
  "dragBox (snd (positionBoxes r s)) = dragBox s"
  "dragStartX (snd (positionBoxes r s)) = dragStartX s"
  "preDragWidth (snd (positionBoxes r s)) = preDragWidth s"
  by (simp_all only: positionBoxes_def position_each_frame)

lemma positionBoxes_attrs:
  "attrs (elements (snd (positionBoxes r s)) m) = attrs (elements s m)"
  by (simp only: positionBoxes_def position_each_attrs)

lemma positionBoxes_innerHTML:
  "innerHTML (elements (snd (positionBoxes r s)) m) = innerHTML (elements s m)"
  by (simp only: positionBoxes_def position_each_innerHTML)

lemma positionBoxes_fst:
  "fst (positionBoxes r s) = (if 4 \<le> length (boxes s) then None else Some TypeError)"
  unfolding positionBoxes_def position_each_fst by simp

lemma positionSizeDisplay_fst: "fst (positionSizeDisplay r s) = None"
  by (simp add: positionSizeDisplay_def Let_def split: option.splits prod.splits)

lemma positionSizeDisplay_frame:
  "next_id (snd (positionSizeDisplay r s)) = next_id s"
  "body_children (snd (positionSizeDisplay r s)) = body_children s"
  "listeners (snd (positionSizeDisplay r s)) = listeners s"
  "body_style (snd (positionSizeDisplay r s)) = body_style s"
  "root_style (snd (positionSizeDisplay r s)) = root_style s"
  "html_style (snd (positionSizeDisplay r s)) = html_style s"
  "pageXOffset (snd (positionSizeDisplay r s)) = pageXOffset s"
  "pageYOffset (snd (positionSizeDisplay r s)) = pageYOffset s"
  "layout (snd (positionSizeDisplay r s)) = layout s"
  "options (snd (positionSizeDisplay r s)) = options s"
  "img (snd (positionSizeDisplay r s)) = img s"
  "boxes (snd (positionSizeDisplay r s)) = boxes s"
  "display (snd (positionSizeDisplay r s)) = display s"
  "dragBox (snd (positionSizeDisplay r s)) = dragBox s"
  "dragStartX (snd (positionSizeDisplay r s)) = dragStartX s"
  "preDragWidth (snd (positionSizeDisplay r s)) = preDragWidth s"
  by (simp_all add: positionSizeDisplay_def Let_def extend_style_frame update_element_def split: option.splits prod.splits)

lemma positionSizeDisplay_attrs:
  "attrs (elements (snd (positionSizeDisplay r s)) m) = attrs (elements s m)"
  by (simp add: positionSizeDisplay_def Let_def extend_style_attrs update_element_def
      attrs_innerHTML_update split: option.splits prod.splits)

lemma positionSizeDisplay_label:
  "display s = Some d \<Longrightarrow> img s = Some i \<Longrightarrow>
   innerHTML (elements (snd (positionSizeDisplay r s)) d) =
     Joined [fst (getCurrentSize (elements s i)), snd (getCurrentSize (elements s i))]
       '' &times; ''"
  by (simp add: positionSizeDisplay_def Let_def extend_style_def update_element_def
      split: prod.splits)

lemma reposition_fst:
  "fst (reposition i s) = (if 4 \<le> length (boxes s) then None else Some TypeError)"
  by (simp add: reposition_def Let_def steps_Cons_if positionBoxes_fst positionSizeDisplay_fst)

lemma reposition_frame:
  "next_id (snd (reposition i s)) = next_id s"
  "body_children (snd (reposition i s)) = body_children s"
  "listeners (snd (reposition i s)) = listeners s"
  "body_style (snd (reposition i s)) = body_style s"
  "root_style (snd (reposition i s)) = root_style s"
  "html_style (snd (reposition i s)) = html_style s"
  "pageXOffset (snd (reposition i s)) = pageXOffset s"
  "pageYOffset (snd (reposition i s)) = pageYOffset s"
  "layout (snd (reposition i s)) = layout s"
  "options (snd (reposition i s)) = options s"
  "img (snd (reposition i s)) = img s"
  "boxes (snd (reposition i s)) = boxes s"
  "display (snd (reposition i s)) = display s"
  "dragBox (snd (reposition i s)) = dragBox s"
  "dragStartX (snd (reposition i s)) = dragStartX s"
  "preDragWidth (snd (reposition i s)) = preDragWidth s"
  by (simp_all add: reposition_def Let_def steps_Cons_if positionBoxes_frame positionSizeDisplay_frame)

lemma reposition_attrs:
  "attrs (elements (snd (reposition i s)) m) = attrs (elements s m)"
  by (simp add: reposition_def Let_def steps_Cons_if positionBoxes_attrs
      positionSizeDisplay_attrs)


subsection \<open>Selecting an image\<close>

lemma show_img_fst: "fst (show_img i s) = None"
  by (simp add: show_img_def steps_Cons_if fst_ok snd_ok reposition_fst showSizeDisplay_frame
      showResizers_effect)

lemma show_img_frame:
  "body_style (snd (show_img i s)) = body_style s"
  "pageXOffset (snd (show_img i s)) = pageXOffset s"
  "pageYOffset (snd (show_img i s)) = pageYOffset s"
  "layout (snd (show_img i s)) = layout s"
  "options (snd (show_img i s)) = options s"
  "dragBox (snd (show_img i s)) = dragBox s"
  "dragStartX (snd (show_img i s)) = dragStartX s"
  "preDragWidth (snd (show_img i s)) = preDragWidth s"
  by (simp_all add: show_img_def steps_Cons_if fst_ok snd_ok reposition_fst reposition_frame showSizeDisplay_frame showResizers_frame showResizers_effect)

lemma show_img_effect:
  "img (snd (show_img i s)) = Some i"
  "boxes (snd (show_img i s)) =
     boxes s @ [next_id s, next_id s + 1, next_id s + 2, next_id s + 3]"
  "display (snd (show_img i s)) =
     (if displaySize (options s) then Some (next_id s + 4) else display s)"
  "body_children (snd (show_img i s)) =
     body_children s @ [next_id s, next_id s + 1, next_id s + 2, next_id s + 3]
       @ (if displaySize (options s) then [next_id s + 4] else [])"
  "next_id (snd (show_img i s)) = (if displaySize (options s) then next_id s + 5 else next_id s + 4)"
  "listeners (snd (show_img i s)) =
     add_listener (Root, ''input'', CheckImage, True)
      (add_listener (Document, ''keyup'', CheckImage, True)
        (add_listener (Element (next_id s + 3), ''mousedown'', HandleMousedown, False)
          (add_listener (Element (next_id s + 2), ''mousedown'', HandleMousedown, False)
            (add_listener (Element (next_id s + 1), ''mousedown'', HandleMousedown, False)
              (add_listener (Element (next_id s), ''mousedown'', HandleMousedown, False)
                (listeners s))))))"
  by (simp_all add: show_img_def steps_Cons_if fst_ok snd_ok reposition_fst reposition_frame
      showSizeDisplay_frame showSizeDisplay_effect showResizers_frame showResizers_effect)

lemma show_img_attrs:
  "m < next_id s \<Longrightarrow> attrs (elements (snd (show_img i s)) m) = attrs (elements s m)"
  by (simp add: show_img_def steps_Cons_if fst_ok snd_ok reposition_fst reposition_attrs
      showSizeDisplay_elements showResizers_elements showResizers_effect)

subsection \<open>Tearing down\<close>

lemma setCursor_fst: "fst (setCursor v s) = (if img s = None then Some TypeError else None)"
  by (simp add: setCursor_def Let_def split: option.splits)

lemma setCursor_frame:
  "next_id (snd (setCursor v s)) = next_id s"
  "body_children (snd (setCursor v s)) = body_children s"
  "listeners (snd (setCursor v s)) = listeners s"
  "html_style (snd (setCursor v s)) = html_style s"
  "pageXOffset (snd (setCursor v s)) = pageXOffset s"
  "pageYOffset (snd (setCursor v s)) = pageYOffset s"
  "layout (snd (setCursor v s)) = layout s"
  "options (snd (setCursor v s)) = options s"
  "img (snd (setCursor v s)) = img s"
  "boxes (snd (setCursor v s)) = boxes s"
  "display (snd (setCursor v s)) = display s"
  "dragBox (snd (setCursor v s)) = dragBox s"
  "dragStartX (snd (setCursor v s)) = dragStartX s"
  "preDragWidth (snd (setCursor v s)) = preDragWidth s"
  by (simp_all add: setCursor_def Let_def extend_style_frame split: option.splits)

lemma setCursor_styles:
  "body_style (snd (setCursor v s)) = (body_style s)(''cursor'' \<mapsto> v)"
  "img s = Some i \<Longrightarrow> root_style (snd (setCursor v s)) = (root_style s)(''cursor'' \<mapsto> v)"
  "img s = Some i \<Longrightarrow> style (elements (snd (setCursor v s)) i) ''cursor'' = Some v"
  by (simp_all add: setCursor_def Let_def extend_style_frame extend_style_def update_element_def
      extend_props_def split: option.splits)

lemma setCursor_attrs: "attrs (elements (snd (setCursor v s)) m) = attrs (elements s m)"
  by (simp add: setCursor_def Let_def extend_style_attrs split: option.splits)

lemma remove_each_eq:
  "remove_each bs s =
     (fst (remove_children bs (body_children s)),
      s\<lparr>body_children := snd (remove_children bs (body_children s))\<rparr>)"
proof (induction bs arbitrary: s)
  case Nil
  show ?case by simp
next
  case (Cons b bs)
  show ?case
  proof (cases "b \<in> set (body_children s)")
    case True
    then show ?thesis
      by (simp add: removeChild_def Cons.IH)
  next
    case False
    then show ?thesis
      by (simp add: removeChild_def)
  qed
qed

lemma hideResizers_fst:
  "fst (hideResizers s) =
     (if img s = None then Some TypeError
      else fst (remove_children (boxes s) (body_children s)))"
  by (simp add: hideResizers_def steps_Cons_if fst_ok snd_ok setCursor_fst setCursor_frame
      setUserSelect_frame removeEventListener_def remove_each_eq)

lemma hideResizers_frame:
  "next_id (snd (hideResizers s)) = next_id s"
  "pageXOffset (snd (hideResizers s)) = pageXOffset s"
  "pageYOffset (snd (hideResizers s)) = pageYOffset s"
  "layout (snd (hideResizers s)) = layout s"
  "options (snd (hideResizers s)) = options s"
  "img (snd (hideResizers s)) = img s"
  "display (snd (hideResizers s)) = display s"
  by (simp_all add: hideResizers_def steps_Cons_if fst_ok snd_ok setCursor_fst setCursor_frame setUserSelect_frame removeEventListener_def remove_each_eq)

lemma hideResizers_listeners:
  "listeners (snd (hideResizers s)) =
     removeAll (Root, ''input'', CheckImage, False)
       (removeAll (Document, ''keyup'', CheckImage, False) (listeners s))"
  by (simp add: hideResizers_def steps_Cons_if fst_ok snd_ok setCursor_fst setCursor_frame
      setUserSelect_frame removeEventListener_def remove_each_eq)

lemma hideResizers_attrs: "attrs (elements (snd (hideResizers s)) m) = attrs (elements s m)"
  by (simp add: hideResizers_def steps_Cons_if fst_ok snd_ok setCursor_fst setCursor_frame
      setCursor_attrs setUserSelect_frame removeEventListener_def remove_each_eq)

lemma hideResizers_done:
  assumes "fst (hideResizers s) = None"
  shows "dragBox (snd (hideResizers s)) = None"
    and "dragStartX (snd (hideResizers s)) = None"
    and "preDragWidth (snd (hideResizers s)) = None"
    and "boxes (snd (hideResizers s)) = []"
    and "body_children (snd (hideResizers s)) = snd (remove_children (boxes s) (body_children s))"
  using assms
  by (simp_all add: hideResizers_def steps_Cons_if fst_ok snd_ok setCursor_fst setCursor_frame
      setUserSelect_frame removeEventListener_def remove_each_eq split: if_splits)

lemma hideSizeDisplay_undefined: "display s = None \<Longrightarrow> hideSizeDisplay s = (Some TypeError, s)"
  by (simp add: hideSizeDisplay_def steps_Cons_if removeChild_def)

lemma hideSizeDisplay_child:
  "display s = Some d \<Longrightarrow> d \<in> set (body_children s) \<Longrightarrow>
   hideSizeDisplay s = (None, s\<lparr>body_children := remove1 d (body_children s), display := None\<rparr>)"
  by (simp add: hideSizeDisplay_def steps_Cons_if removeChild_def ok_def)

lemma hide_without_display:
  assumes "fst (hideResizers s) = None" and "display s = None"
  shows "hide s = (Some TypeError, snd (hideResizers s))"
proof -
  have "display (snd (hideResizers s)) = None"
    using assms(2) by (simp add: hideResizers_frame)
  then have "hideSizeDisplay (snd (hideResizers s)) = (Some TypeError, snd (hideResizers s))"
    by (rule hideSizeDisplay_undefined)
  with assms(1) show ?thesis
    by (simp add: hide_def steps_Cons_if)
qed

lemma hide_with_display:
  assumes "fst (hideResizers s) = None" and "display s = Some d"
    and "d \<in> set (snd (remove_children (boxes s) (body_children s)))"
  shows "hide s =
     (None, (snd (hideResizers s))
        \<lparr>body_children := remove1 d (snd (remove_children (boxes s) (body_children s))),
         display := None, img := None\<rparr>)"
proof -
  let ?t = "snd (hideResizers s)"
  have d: "display ?t = Some d"
    using assms(2) by (simp add: hideResizers_frame)
  have c: "body_children ?t = snd (remove_children (boxes s) (body_children s))"
    using assms(1) by (rule hideResizers_done)
  have "hideSizeDisplay ?t = (None, ?t\<lparr>body_children := remove1 d (body_children ?t), display := None\<rparr>)"
    using d c assms(3) by (simp add: hideSizeDisplay_child)
  with assms(1) c show ?thesis
    by (simp add: hide_def steps_Cons_if ok_def)
qed

subsection \<open>Dragging\<close>

lemma handleMousedown_fst:
  "img s = Some i \<Longrightarrow> target evt = Some b \<Longrightarrow> fst (handleMousedown evt s) = None"
  by (simp add: handleMousedown_def Let_def steps_Cons_if fst_ok snd_ok setCursor_fst)

lemma handleMousedown_frame:
  "next_id (snd (handleMousedown evt s)) = next_id s"
  "body_children (snd (handleMousedown evt s)) = body_children s"
  "html_style (snd (handleMousedown evt s)) = html_style s"
  "pageXOffset (snd (handleMousedown evt s)) = pageXOffset s"
  "pageYOffset (snd (handleMousedown evt s)) = pageYOffset s"
  "layout (snd (handleMousedown evt s)) = layout s"
  "options (snd (handleMousedown evt s)) = options s"
  "img (snd (handleMousedown evt s)) = img s"
  "boxes (snd (handleMousedown evt s)) = boxes s"
  "display (snd (handleMousedown evt s)) = display s"
  by (simp_all add: handleMousedown_def Let_def steps_Cons_if fst_ok snd_ok setCursor_fst setCursor_frame addEventListener_def split: option.splits)

lemma handleMousedown_effect:
  assumes "img s = Some i" and "target evt = Some b"
  shows "dragBox (snd (handleMousedown evt s)) = Some b"
    and "dragStartX (snd (handleMousedown evt s)) = Some (clientX evt)"
    and "preDragWidth (snd (handleMousedown evt s)) =
           Some (if truthy (width (elements s i)) then width (elements s i)
                 else naturalWidth (elements s i))"
    and "listeners (snd (handleMousedown evt s)) =
           add_listener (Document, ''mouseup'', HandleMouseup, False)
             (add_listener (Document, ''mousemove'', HandleDrag, False) (listeners s))"
  using assms
  by (simp_all add: handleMousedown_def Let_def steps_Cons_if fst_ok snd_ok setCursor_fst
      setCursor_frame addEventListener_def)

lemma handleMousedown_attrs:
  "attrs (elements (snd (handleMousedown evt s)) m) = attrs (elements s m)"
  by (simp add: handleMousedown_def Let_def steps_Cons_if fst_ok snd_ok setCursor_fst
      setCursor_attrs addEventListener_def split: option.splits)

lemma handleMouseup_fst: "fst (handleMouseup s) = (if img s = None then Some TypeError else None)"
  by (simp add: handleMouseup_def steps_Cons_if fst_ok snd_ok setCursor_fst)

lemma handleMouseup_frame:
  "next_id (snd (handleMouseup s)) = next_id s"
  "body_children (snd (handleMouseup s)) = body_children s"
  "html_style (snd (handleMouseup s)) = html_style s"
  "pageXOffset (snd (handleMouseup s)) = pageXOffset s"
  "pageYOffset (snd (handleMouseup s)) = pageYOffset s"
  "layout (snd (handleMouseup s)) = layout s"
  "options (snd (handleMouseup s)) = options s"
  "img (snd (handleMouseup s)) = img s"
  "boxes (snd (handleMouseup s)) = boxes s"
  "display (snd (handleMouseup s)) = display s"
  "dragBox (snd (handleMouseup s)) = dragBox s"
  "dragStartX (snd (handleMouseup s)) = dragStartX s"
  "preDragWidth (snd (handleMouseup s)) = preDragWidth s"
  by (simp_all add: handleMouseup_def steps_Cons_if fst_ok snd_ok setCursor_fst setCursor_frame removeEventListener_def)

lemma handleMouseup_listeners:
  "img s = Some i \<Longrightarrow>
   listeners (snd (handleMouseup s)) =
     removeAll (Document, ''mouseup'', HandleMouseup, False)
       (removeAll (Document, ''mousemove'', HandleDrag, False) (listeners s))"
  by (simp add: handleMouseup_def steps_Cons_if fst_ok snd_ok setCursor_fst setCursor_frame
      removeEventListener_def)

lemma handleMouseup_styles:
  assumes "img s = Some i"
  shows "body_style (snd (handleMouseup s)) ''cursor'' = Some (Css [])"
    and "root_style (snd (handleMouseup s)) ''cursor'' = Some (Css [])"
    and "style (elements (snd (handleMouseup s)) i) ''cursor'' = Some (Css [])"
  using assms
  by (simp_all add: handleMouseup_def steps_Cons_if fst_ok snd_ok setCursor_fst setCursor_frame
      setCursor_styles removeEventListener_def)

lemma handleMouseup_attrs: "attrs (elements (snd (handleMouseup s)) m) = attrs (elements s m)"
  by (simp add: handleMouseup_def steps_Cons_if fst_ok snd_ok setCursor_fst setCursor_attrs
      removeEventListener_def)

lemma handleDrag_frame:
  "next_id (snd (handleDrag evt s)) = next_id s"
  "body_children (snd (handleDrag evt s)) = body_children s"
  "listeners (snd (handleDrag evt s)) = listeners s"
  "body_style (snd (handleDrag evt s)) = body_style s"
  "root_style (snd (handleDrag evt s)) = root_style s"
  "html_style (snd (handleDrag evt s)) = html_style s"
  "pageXOffset (snd (handleDrag evt s)) = pageXOffset s"
  "pageYOffset (snd (handleDrag evt s)) = pageYOffset s"
  "layout (snd (handleDrag evt s)) = layout s"
  "options (snd (handleDrag evt s)) = options s"
  "img (snd (handleDrag evt s)) = img s"
  "boxes (snd (handleDrag evt s)) = boxes s"
  "display (snd (handleDrag evt s)) = display s"
  "dragBox (snd (handleDrag evt s)) = dragBox s"
  "dragStartX (snd (handleDrag evt s)) = dragStartX s"
  "preDragWidth (snd (handleDrag evt s)) = preDragWidth s"
  by (simp_all add: handleDrag_def Let_def reposition_frame update_element_def split: option.splits)

lemma handleDrag_width:
  assumes "img s = Some i"
  shows "width (elements (snd (handleDrag evt s)) i) =
     (if dragBox s = box_at s 0 \<or> dragBox s = box_at s 3
      then js_round (js_sub (js_sub (to_number (preDragWidth s)) (clientX evt))
                       (to_number (dragStartX s)))
      else js_round (js_sub (js_add (to_number (preDragWidth s)) (clientX evt))
                       (to_number (dragStartX s))))"
proof -
  let ?w = "if dragBox s = box_at s 0 \<or> dragBox s = box_at s 3
      then js_round (js_sub (js_sub (to_number (preDragWidth s)) (clientX evt))
                       (to_number (dragStartX s)))
      else js_round (js_sub (js_add (to_number (preDragWidth s)) (clientX evt))
                       (to_number (dragStartX s)))"
  let ?s1 = "update_element i (\<lambda>e. e\<lparr>width := ?w\<rparr>) s"
  have "handleDrag evt s = reposition i ?s1"
    using assms by (simp add: handleDrag_def Let_def)
  then have "attrs (elements (snd (handleDrag evt s)) i) = attrs (elements ?s1 i)"
    by (simp add: reposition_attrs)
  then show ?thesis
    by (simp add: attrs_def update_element_def)
qed


section \<open>The importer: insertion position, drop and paste\<close>

lemma insert_index_embeds: "insert_index (q\<lparr>embeds := es\<rparr>) = insert_index q"
  by (simp add: insert_index_def getSelection_def getLength_def split: option.splits)

lemma insert_img_eq:
  "insert_img url q = q\<lparr>embeds := embeds q @ [(insert_index q, ''image'', url, ''user'')]\<rparr>"
  by (simp add: insert_img_def insertEmbed_def)

lemma drain_empty: "pending w = [] \<Longrightarrow> drain w = w"
  by (simp add: drain.simps)

lemma drain_step: "pending w = t # ts \<Longrightarrow> drain w = drain (run_task t (w\<lparr>pending := ts\<rparr>))"
  by (subst drain.simps) simp

lemma readFiles_pending:
  "readFiles fs cb w = w\<lparr>pending := pending w @ map (\<lambda>b. ReaderTask b cb) (accepted_blobs fs)\<rparr>"
proof (induction fs arbitrary: w)
  case Nil
  show ?case by (simp add: accepted_blobs_def)
next
  case (Cons f fs)
  show ?case
    by (cases "as_blob f")
       (simp_all add: Cons.IH read_one_def accepted_blobs_def)
qed

text \<open>
  The reads of a drop, run to the end: every read that loads appends one call, with the
  data URI that was read, at the position the host gives at that moment.
\<close>

lemma drain_drop_reads:
  "pending w = map (\<lambda>b. ReaderTask b InsertCb) bs \<Longrightarrow>
   drain w =
     w\<lparr>pending := [],
       host := (host w)\<lparr>embeds := embeds (host w) @
                 map (\<lambda>url. (insert_index (host w), ''image'', url, ''user''))
                   (List.map_filter read_result bs)\<rparr>\<rparr>"
proof (induction bs arbitrary: w)
  case Nil
  then show ?case by (simp add: drain_empty)
next
  case (Cons b bs)
  let ?rest = "map (\<lambda>b. ReaderTask b InsertCb) bs"
  let ?w2 = "run_task (ReaderTask b InsertCb) (w\<lparr>pending := ?rest\<rparr>)"
  have step: "drain w = drain ?w2"
    using Cons.prems by (simp add: drain_step)
  have rest: "pending ?w2 = ?rest"
    by (cases "read_result b") simp_all
  have "drain ?w2 =
     ?w2\<lparr>pending := [],
       host := (host ?w2)\<lparr>embeds := embeds (host ?w2) @
                 map (\<lambda>url. (insert_index (host ?w2), ''image'', url, ''user''))
                   (List.map_filter read_result bs)\<rparr>\<rparr>"
    using rest by (rule Cons.IH)
  with step show ?case
    by (cases "read_result b") (simp_all add: insert_img_eq insert_index_embeds)
qed

lemma mime_examples:
  "is_image_type ''image/gif''" "is_image_type ''image/jpeg''" "is_image_type ''image/png''"
  "is_image_type ''image/apng''" "is_image_type ''image/svg+xml''" "is_image_type ''image/webp''"
  "is_image_type ''image/bmp''" "is_image_type ''image/vnd.microsoft.icon''"
  "is_image_type ''IMAGE/PNG''"
  "\<not> is_image_type ''application/pdf''" "\<not> is_image_type ''image/x-icon''"
  "\<not> is_image_type ''text/plain''"
  by code_simp+

text \<open>
  Claim C2. The specification: \<open>insert(dataUrl)\<close> inserts at the index of the selection
  whenever there is a selection, index 0 included, and at the end of the document only
  when there is none. The code takes \<open>(selection || {}).index || getLength()\<close>, and the
  index 0 is falsy: with the cursor at the very start of a document of length 10 the
  image is inserted at position 10, not 0. With any other index, and with no selection,
  the code does what the claim says.
\<close>

theorem insert_at_index_zero_goes_to_end:
  "embeds (insert_img ''data:image/png;base64,AA=='' quill_at_start) =
     [(10, ''image'', ''data:image/png;base64,AA=='', ''user'')]
   \<and> map_option index (getSelection quill_at_start) = Some 0"
  by (simp add: insert_img_eq insert_index_def getSelection_def getLength_def quill_at_start_def)

text \<open>
  Claim C5, as amended. For every file of a drop payload, once the pending reads have
  run: one \<open>insertEmbed\<close> call with the file's data URI is made if and only if the MIME
  type of the file matches the pattern and the read of the file loads; a file of any
  other type, or one whose read fails, gives no call, and nothing is thrown on the way
  (the handler and the event loop are total functions without an error result). The
  calls come in the order of the files. The eight listed types match; \<open>application/pdf\<close>
  and \<open>image/x-icon\<close> do not.
\<close>

theorem drop_inserts_loaded_images:
  "(pending w = [] \<longrightarrow>
      embeds (host (drain (handleDrop (Some fs) w))) =
        embeds (host w) @
          map (\<lambda>url. (insert_index (host w), ''image'', url, ''user'')) (loaded_urls fs))
   \<and> loaded_urls [File t b] =
        (if is_image_type t then (case read_result b of Some url \<Rightarrow> [url] | None \<Rightarrow> []) else [])
   \<and> list_all is_image_type
        [''image/gif'', ''image/jpeg'', ''image/png'', ''image/apng'', ''image/svg+xml'',
         ''image/webp'', ''image/bmp'', ''image/vnd.microsoft.icon'']
   \<and> \<not> is_image_type ''application/pdf'' \<and> \<not> is_image_type ''image/x-icon''"
proof -
  have drop: "embeds (host (drain (handleDrop (Some fs) w))) =
        embeds (host w) @
          map (\<lambda>url. (insert_index (host w), ''image'', url, ''user'')) (loaded_urls fs)"
    if empty: "pending w = []"
  proof (cases "fs = []")
    case True
    with empty show ?thesis
      by (simp add: handleDrop_def drain_empty loaded_urls_def accepted_blobs_def)
  next
    case False
    let ?w1 = "w\<lparr>defaultPrevented := True\<rparr>"
    have "handleDrop (Some fs) w =
        ?w1\<lparr>pending := map (\<lambda>b. ReaderTask b InsertCb) (accepted_blobs fs)\<rparr>"
      using False empty by (simp add: handleDrop_def readFiles_pending)
    then show ?thesis
      using drain_drop_reads [where w = "handleDrop (Some fs) w" and bs = "accepted_blobs fs"]
      by (simp add: loaded_urls_def)
  qed
  have single: "loaded_urls [File t b] =
        (if is_image_type t then (case read_result b of Some url \<Rightarrow> [url] | None \<Rightarrow> []) else [])"
    by (simp add: loaded_urls_def accepted_blobs_def split: option.splits)
  from drop single show ?thesis
    by (simp add: mime_examples)
qed

theorem drop_inserts_loaded_images_witness:
  "pending world_at_start = []
   \<and> embeds (host (drain (handleDrop
        (Some [File ''image/png'' (Blob (Some ''data:image/png;base64,AA=='')),
               File ''application/pdf'' (Blob (Some ''data:application/pdf;base64,AA==''))])
        world_at_start))) =
       [(10, ''image'', ''data:image/png;base64,AA=='', ''user'')]"
proof -
  let ?fs = "[File ''image/png'' (Blob (Some ''data:image/png;base64,AA=='')),
              File ''application/pdf'' (Blob (Some ''data:application/pdf;base64,AA==''))]"
  have empty: "pending world_at_start = []"
    by (simp add: world_at_start_def)
  have urls: "loaded_urls ?fs = [''data:image/png;base64,AA=='']"
    by (simp add: loaded_urls_def accepted_blobs_def mime_examples)
  have idx: "insert_index (host world_at_start) = 10"
    by (simp add: world_at_start_def quill_at_start_def insert_index_def getSelection_def
        getLength_def)
  have "embeds (host world_at_start) = []"
    by (simp add: world_at_start_def quill_at_start_def)
  with drop_inserts_loaded_images [of world_at_start ?fs] empty urls idx show ?thesis
    by simp
qed

text \<open>
  The claim as it was stated fails on a file that has an accepted type and cannot be
  read: the type matches and no call is made.
\<close>

theorem drop_unreadable_image_counterexample:
  "is_image_type ''image/png''
   \<and> embeds (host (drain (handleDrop (Some [File ''image/png'' (Blob None)]) world_at_start))) = []"
proof -
  have "handleDrop (Some [File ''image/png'' (Blob None)]) world_at_start =
      world_at_start\<lparr>defaultPrevented := True, pending := [ReaderTask (Blob None) InsertCb]\<rparr>"
    by (simp add: handleDrop_def read_one_def mime_examples world_at_start_def)
  moreover have "drain (world_at_start\<lparr>defaultPrevented := True,
        pending := [ReaderTask (Blob None) InsertCb]\<rparr>) =
      world_at_start\<lparr>defaultPrevented := True, pending := []\<rparr>"
    by (subst drain_step [where t = "ReaderTask (Blob None) InsertCb" and ts = "[]"])
       (simp_all add: drain_empty)
  ultimately show ?thesis
    by (simp add: mime_examples world_at_start_def quill_at_start_def)
qed

text \<open>
  Claim C6. A paste event with one image item starts one read and inserts nothing by
  itself. When the read completes in a state \<open>w1\<close> of the page: if the host has a
  selection, the callback changes nothing (no call, nothing scheduled); if it has none,
  the callback makes no call either and schedules one zero-delay timeout. When that
  timeout runs, in whatever state \<open>w2\<close> the host's own paste handling has left, it makes
  exactly one \<open>insertEmbed\<close> call with the data URI and schedules nothing more.
\<close>

theorem paste_defers_one_insertion:
  "is_image_type t \<longrightarrow>
     handlePaste (Some [Item t (Some (Blob (Some url)))]) w =
       w\<lparr>pending := pending w @ [ReaderTask (Blob (Some url)) PasteCb]\<rparr>
   \<and> (getSelection (host w1) \<noteq> None \<longrightarrow>
        run_task (ReaderTask (Blob (Some url)) PasteCb) w1 = w1)
   \<and> (getSelection (host w1) = None \<longrightarrow>
        run_task (ReaderTask (Blob (Some url)) PasteCb) w1 =
          w1\<lparr>pending := pending w1 @ [TimeoutTask url]\<rparr>)
   \<and> embeds (host (run_task (TimeoutTask url) w2)) =
        embeds (host w2) @ [(insert_index (host w2), ''image'', url, ''user'')]
   \<and> pending (run_task (TimeoutTask url) w2) = pending w2"
  by (auto simp: handlePaste_def read_one_def paste_callback_def insert_img_eq
      split: option.splits)

theorem paste_defers_one_insertion_witness:
  "is_image_type ''image/png''
   \<and> getSelection (host world_unfocused) = None
   \<and> getSelection (host world_at_start) \<noteq> None
   \<and> handlePaste (Some [Item ''image/png'' (Some (Blob (Some ''data:image/png;base64,AA=='')))])
        world_unfocused =
       world_unfocused\<lparr>pending :=
         [ReaderTask (Blob (Some ''data:image/png;base64,AA=='')) PasteCb]\<rparr>
   \<and> run_task (ReaderTask (Blob (Some ''data:image/png;base64,AA=='')) PasteCb) world_at_start =
       world_at_start
   \<and> run_task (ReaderTask (Blob (Some ''data:image/png;base64,AA=='')) PasteCb) world_unfocused =
       world_unfocused\<lparr>pending := [TimeoutTask ''data:image/png;base64,AA=='']\<rparr>
   \<and> embeds (host (run_task (TimeoutTask ''data:image/png;base64,AA=='') world_at_start)) =
       [(10, ''image'', ''data:image/png;base64,AA=='', ''user'')]"
proof -
  have mime: "is_image_type ''image/png''"
    by (rule mime_examples)
  have none: "getSelection (host world_unfocused) = None"
    by (simp add: world_unfocused_def quill_unfocused_def getSelection_def)
  have some: "getSelection (host world_at_start) \<noteq> None"
    by (simp add: world_at_start_def quill_at_start_def getSelection_def)
  have p: "pending world_unfocused = []" "pending world_at_start = []"
    by (simp_all add: world_unfocused_def world_at_start_def)
  have e: "embeds (host world_at_start) = []" "insert_index (host world_at_start) = 10"
    by (simp_all add: world_at_start_def quill_at_start_def insert_index_def getSelection_def
        getLength_def)
  show ?thesis
    using paste_defers_one_insertion [of "''image/png''" "''data:image/png;base64,AA==''"
        world_unfocused world_at_start world_at_start]
      paste_defers_one_insertion [of "''image/png''" "''data:image/png;base64,AA==''"
        world_unfocused world_unfocused world_at_start]
      mime none some p e
    by simp
qed

section \<open>The resize controller: drag events outside a selection\<close>

text \<open>
  Claim C10. A mousemove that reaches the drag handler while no image is selected
  returns at once: no exception, and the state of the controller and of the page is
  the one before, whatever the event and whatever the drag fields hold.
\<close>

theorem handleDrag_without_image:
  "img s = None \<Longrightarrow> handleDrag evt s = (None, s)"
  by (simp add: handleDrag_def)

theorem handleDrag_without_image_witness:
  "img idle_default = None \<and> handleDrag (mouse_at 0 80) idle_default = (None, idle_default)"
proof -
  have h: "img idle_default = None"
    by (simp add: idle_default_def ImageResize_def addEventListener_def)
  from handleDrag_without_image [OF h] h show ?thesis
    by simp
qed


section \<open>The resize controller: the example states\<close>

lemma is_img_tag_examples: "is_img_tag ''IMG''" "is_img_tag ''img''" "\<not> is_img_tag ''P''"
  "\<not> is_img_tag ''DIV''"
  by code_simp+

lemma ImageResize_fields:
  "img (ImageResize opts p) = None"
  "boxes (ImageResize opts p) = []"
  "display (ImageResize opts p) = None"
  "dragBox (ImageResize opts p) = None"
  "dragStartX (ImageResize opts p) = None"
  "preDragWidth (ImageResize opts p) = None"
  "options (ImageResize opts p) = opts"
  "elements (ImageResize opts p) = elements p"
  "next_id (ImageResize opts p) = next_id p"
  "body_children (ImageResize opts p) = body_children p"
  "layout (ImageResize opts p) = layout p"
  "pageXOffset (ImageResize opts p) = pageXOffset p"
  "pageYOffset (ImageResize opts p) = pageYOffset p"
  "listeners (ImageResize opts p) = add_listener (Root, ''click'', HandleClick, False) (listeners p)"
  by (simp_all add: ImageResize_def addEventListener_def)

lemma demo_page_fields:
  "elements demo_page 0 = text_block" "elements demo_page 1 = photo"
  "elements demo_page (Suc 0) = photo"
  "elements demo_page 2 = banner" "next_id demo_page = 3" "body_children demo_page = []"
  "listeners demo_page = []" "layout demo_page = demo_layout"
  "pageXOffset demo_page = Fin 0" "pageYOffset demo_page = Fin 0"
  by (simp_all add: demo_page_def)

lemma handleClick_select:
  "img s = None \<Longrightarrow> clicked_img evt s = Some t \<Longrightarrow> handleClick evt s = show_img t s"
  by (simp add: handleClick_def steps_Cons_if prod_eq_iff)

lemma handleClick_outside:
  "img s = Some i \<Longrightarrow> clicked_img evt s = None \<Longrightarrow> handleClick evt s = hide s"
  by (simp add: handleClick_def)

lemma handleClick_other:
  "img s = Some i \<Longrightarrow> clicked_img evt s = Some t \<Longrightarrow> t \<noteq> i \<Longrightarrow>
   handleClick evt s = (if fst (hide s) = None then show_img t (snd (hide s)) else hide s)"
  by (simp add: handleClick_def steps_Cons_if prod_eq_iff)

lemma checkImage_selected: "img s = Some i \<Longrightarrow> checkImage s = hide s"
  by (simp add: checkImage_def)

lemma selected_eq:
  "selected_default = snd (show_img 1 idle_default)"
  "selected_readme = snd (show_img 1 idle_readme)"
  by (simp_all add: selected_default_def selected_readme_def idle_default_def idle_readme_def
      handleClick_select clicked_img_def mouse_at_def ImageResize_fields demo_page_fields
      photo_def is_img_tag_examples)

lemma selected_default_fields:
  "img selected_default = Some 1"
  "boxes selected_default = [3, 4, 5, 6]"
  "display selected_default = None"
  "body_children selected_default = [3, 4, 5, 6]"
  "attrs (elements selected_default 0) = attrs text_block"
  "attrs (elements selected_default 1) = attrs photo"
  "attrs (elements selected_default (Suc 0)) = attrs photo"
  "attrs (elements selected_default 2) = attrs banner"
  by (simp_all add: selected_eq idle_default_def show_img_effect show_img_frame show_img_attrs
      ImageResize_fields demo_page_fields default_options_def)

lemma selected_readme_fields:
  "img selected_readme = Some 1"
  "boxes selected_readme = [3, 4, 5, 6]"
  "display selected_readme = Some 7"
  "body_children selected_readme = [3, 4, 5, 6, 7]"
  "dragBox selected_readme = None"
  "layout selected_readme = demo_layout"
  "pageXOffset selected_readme = Fin 0"
  "pageYOffset selected_readme = Fin 0"
  "attrs (elements selected_readme 0) = attrs text_block"
  "attrs (elements selected_readme 1) = attrs photo"
  "attrs (elements selected_readme (Suc 0)) = attrs photo"
  "attrs (elements selected_readme 2) = attrs banner"
  by (simp_all add: selected_eq idle_readme_def show_img_effect show_img_frame show_img_attrs
      ImageResize_fields demo_page_fields readme_options_def)

lemma selected_readme_listeners:
  "listeners selected_readme =
     [(Root, ''click'', HandleClick, False),
      (Element 3, ''mousedown'', HandleMousedown, False),
      (Element 4, ''mousedown'', HandleMousedown, False),
      (Element 5, ''mousedown'', HandleMousedown, False),
      (Element 6, ''mousedown'', HandleMousedown, False),
      (Document, ''keyup'', CheckImage, True),
      (Root, ''input'', CheckImage, True)]"
  by (simp add: selected_eq idle_readme_def show_img_effect ImageResize_fields demo_page_fields
      add_listener_def)

lemma selected_default_tags:
  "tagName (elements selected_default 0) = ''P''"
  "tagName (elements selected_default 2) = ''img''"
  using selected_default_fields(5) selected_default_fields(8)
  by (simp_all add: attrs_def text_block_def banner_def)

lemma selected_readme_tags:
  "tagName (elements selected_readme 0) = ''P''"
  "tagName (elements selected_readme 2) = ''img''"
  using selected_readme_fields(9) selected_readme_fields(12)
  by (simp_all add: attrs_def text_block_def banner_def)

lemma selected_readme_next_id:
  "next_id selected_readme = 8" "displaySize (options selected_readme)"
  by (simp_all add: selected_eq idle_readme_def show_img_effect show_img_frame
      ImageResize_fields demo_page_fields readme_options_def)

lemma selected_readme_photo:
  "width (elements selected_readme 1) = Fin 402"
  "width (elements selected_readme (Suc 0)) = Fin 402"
  "naturalWidth (elements selected_readme 1) = Fin 800"
  "naturalWidth (elements selected_readme (Suc 0)) = Fin 800"
  "naturalHeight (elements selected_readme 1) = Fin 600"
  "naturalHeight (elements selected_readme (Suc 0)) = Fin 600"
  using selected_readme_fields(10) by (simp_all add: attrs_def photo_def)

lemma selected_readme_display:
  "tagName (elements selected_readme 7) = ''DIV''"
proof -
  have "attrs (elements (snd (show_img 1 idle_readme)) 7) = attrs new_div"
    by (simp add: show_img_def steps_Cons_if fst_ok snd_ok reposition_fst reposition_attrs
        showResizers_effect showResizers_frame showSizeDisplay_def run_def createElement_def
        extend_style_def update_element_def appendChild_def Let_def attrs_style_update
        idle_readme_def ImageResize_fields demo_page_fields readme_options_def)
  then show ?thesis
    by (simp add: selected_eq attrs_def new_div_def)
qed

lemma remove_handles:
  "remove_children [3, 4, 5, 6] [3, 4, 5, 6] = (None, [])"
  "remove_children [3, 4, 5, 6] [3, 4, 5, 6, 7] = (None, [7])"
  by simp_all

lemma hide_selected_default:
  "hide selected_default = (Some TypeError, snd (hideResizers selected_default))"
proof -
  have "fst (hideResizers selected_default) = None"
    by (simp add: hideResizers_fst selected_default_fields remove_handles)
  then show ?thesis
    by (rule hide_without_display) (simp add: selected_default_fields)
qed

lemma hide_selected_readme:
  "hide selected_readme =
     (None, (snd (hideResizers selected_readme))\<lparr>body_children := [], display := None, img := None\<rparr>)"
proof -
  have "fst (hideResizers selected_readme) = None"
    by (simp add: hideResizers_fst selected_readme_fields remove_handles)
  then have "hide selected_readme =
     (None, (snd (hideResizers selected_readme))
        \<lparr>body_children :=
           remove1 7 (snd (remove_children (boxes selected_readme) (body_children selected_readme))),
         display := None, img := None\<rparr>)"
    by (rule hide_with_display) (simp_all add: selected_readme_fields remove_handles)
  then show ?thesis
    by (simp add: selected_readme_fields remove_handles)
qed

lemma dragging_left_fields:
  "fst (handleMousedown (mouse_at 3 100) selected_readme) = None"
  "img dragging_left = Some 1"
  "boxes dragging_left = [3, 4, 5, 6]"
  "display dragging_left = Some 7"
  "body_children dragging_left = [3, 4, 5, 6, 7]"
  "dragBox dragging_left = Some 3"
  "dragStartX dragging_left = Some (Fin 100)"
  "preDragWidth dragging_left = Some (Fin 402)"
  by (simp_all add: dragging_left_def handleMousedown_frame
      handleMousedown_fst [where i = 1 and b = 3]
      handleMousedown_effect [where i = 1 and b = 3]
      selected_readme_fields selected_readme_photo mouse_at_def)

lemma dragging_right_fields:
  "img dragging_right = Some 1"
  "boxes dragging_right = [3, 4, 5, 6]"
  "dragBox dragging_right = Some 4"
  "dragStartX dragging_right = Some (Fin 100)"
  "preDragWidth dragging_right = Some (Fin 402)"
  by (simp_all add: dragging_right_def handleMousedown_frame
      handleMousedown_effect [where i = 1 and b = 4]
      selected_readme_fields selected_readme_photo mouse_at_def)

lemma dragging_left_listeners:
  "listeners dragging_left =
     [(Root, ''click'', HandleClick, False),
      (Element 3, ''mousedown'', HandleMousedown, False),
      (Element 4, ''mousedown'', HandleMousedown, False),
      (Element 5, ''mousedown'', HandleMousedown, False),
      (Element 6, ''mousedown'', HandleMousedown, False),
      (Document, ''keyup'', CheckImage, True),
      (Root, ''input'', CheckImage, True),
      (Document, ''mousemove'', HandleDrag, False),
      (Document, ''mouseup'', HandleMouseup, False)]"
  by (simp add: dragging_left_def handleMousedown_effect [where i = 1 and b = 3]
      selected_readme_fields selected_readme_listeners mouse_at_def add_listener_def)

lemma drag_arithmetic:
  "js_round (js_sub (js_sub (Fin 402) (Fin 80)) (Fin 100)) = Fin 222"
  "js_round (js_sub (Fin 402) (js_sub (Fin 80) (Fin 100))) = Fin 422"
  "js_round (js_sub (js_add (Fin 402) (Fin 120)) (Fin 100)) = Fin 422"
  "js_round (js_add (Fin 402) (js_sub (Fin 120) (Fin 100))) = Fin 422"
  by code_simp+


section \<open>The resize controller: the claims\<close>

text \<open>
  Claim C1. The specification: during a drag that started at \<open>dragStartX\<close> with the width
  \<open>preDragWidth\<close>, a mousemove at \<open>clientX\<close> sets the width to
  \<open>round(preDragWidth - (clientX - dragStartX))\<close> on a left handle and to
  \<open>round(preDragWidth + (clientX - dragStartX))\<close> on a right handle. The code of the
  left branch is \<open>Math.round(this.preDragWidth - evt.clientX - this.dragStartX)\<close>, which
  subtracts the start position instead of adding it back. On the page of the README the
  photo is 402 wide; after a mousedown on the top left handle at \<open>clientX = 100\<close>, a
  mousemove to \<open>clientX = 80\<close> sets the width to 222, where the claim gives 422. The
  right branch, \<open>preDragWidth + clientX - dragStartX\<close>, does what the claim says: from the
  same start, a mousemove to 120 on the top right handle gives 422.
\<close>

theorem left_handle_drag_subtracts_start:
  "dragBox dragging_left = box_at dragging_left 0
   \<and> dragStartX dragging_left = Some (Fin 100)
   \<and> preDragWidth dragging_left = Some (Fin 402)
   \<and> width (elements (snd (handleDrag (mouse_at 3 80) dragging_left)) 1) = Fin 222
   \<and> js_round (js_sub (Fin 402) (js_sub (Fin 80) (Fin 100))) = Fin 422
   \<and> dragBox dragging_right = box_at dragging_right 1
   \<and> width (elements (snd (handleDrag (mouse_at 4 120) dragging_right)) 1) = Fin 422
   \<and> js_round (js_add (Fin 402) (js_sub (Fin 120) (Fin 100))) = Fin 422"
proof -
  have left: "width (elements (snd (handleDrag (mouse_at 3 80) dragging_left)) 1) = Fin 222"
    using handleDrag_width [of dragging_left 1 "mouse_at 3 80"]
    by (simp add: dragging_left_fields box_at_def mouse_at_def drag_arithmetic
        del: js_add.simps js_round.simps js_neg.simps)
  have right: "width (elements (snd (handleDrag (mouse_at 4 120) dragging_right)) 1) = Fin 422"
    using handleDrag_width [of dragging_right 1 "mouse_at 4 120"]
    by (simp add: dragging_right_fields box_at_def mouse_at_def drag_arithmetic
        del: js_add.simps js_round.simps js_neg.simps)
  from left right show ?thesis
    by (simp add: dragging_left_fields dragging_right_fields box_at_def drag_arithmetic
        del: js_add.simps js_round.simps js_neg.simps)
qed

text \<open>
  Claim C3. The specification: in every configuration, each deselection trigger
  completes the teardown without an error and clears the selected image. With the
  default options (\<open>displaySize\<close> unset) no size display is ever created, and
  \<open>hideSizeDisplay\<close> calls \<open>document.body.removeChild(this.display)\<close> on \<open>undefined\<close>:
  \<open>showSizeDisplay\<close> has a guard on the option, \<open>hideSizeDisplay\<close> has none. After a
  click on the photo, a click outside it, a key-up and an input event (both run
  \<open>checkImage\<close>) all throw a \<open>TypeError\<close> once the handles are removed, and the selected
  image stays set.
\<close>

theorem deselect_throws_without_size_display:
  "displaySize (options selected_default) = False
   \<and> fst (handleClick (mouse_at 0 0) selected_default) = Some TypeError
   \<and> img (snd (handleClick (mouse_at 0 0) selected_default)) = Some 1
   \<and> boxes (snd (handleClick (mouse_at 0 0) selected_default)) = []
   \<and> fst (checkImage selected_default) = Some TypeError
   \<and> img (snd (checkImage selected_default)) = Some 1"
proof -
  have opts: "displaySize (options selected_default) = False"
    by (simp add: selected_eq idle_default_def show_img_frame ImageResize_fields
        default_options_def)
  have outside: "clicked_img (mouse_at 0 0) selected_default = None"
    by (simp add: clicked_img_def mouse_at_def selected_default_tags is_img_tag_examples)
  have click: "handleClick (mouse_at 0 0) selected_default = hide selected_default"
    using outside by (simp add: handleClick_outside selected_default_fields)
  have key: "checkImage selected_default = hide selected_default"
    by (simp add: checkImage_selected selected_default_fields)
  have torn: "fst (hideResizers selected_default) = None"
    by (simp add: hideResizers_fst selected_default_fields remove_handles)
  from opts click key show ?thesis
    by (simp add: hide_selected_default hideResizers_frame hideResizers_done [OF torn]
        selected_default_fields)
qed

text \<open>
  Claim C4. The specification: every listener registered for a selection is removed by
  the matching teardown. \<open>showResizers\<close> registers the key-up and the input watcher in
  the capture phase (third argument \<open>true\<close>); \<open>hideResizers\<close> calls
  \<open>removeEventListener\<close> without that argument, which names the bubble-phase listener,
  so nothing is removed. With the options of the README, after a click on the photo
  and a key-up, the teardown completes, and both watchers are still registered. The
  drag listeners are registered and removed with the same flag and do go away on
  mouseup.
\<close>

theorem capture_listeners_survive_teardown:
  "fst (checkImage selected_readme) = None
   \<and> img (snd (checkImage selected_readme)) = None
   \<and> boxes (snd (checkImage selected_readme)) = []
   \<and> display (snd (checkImage selected_readme)) = None
   \<and> body_children (snd (checkImage selected_readme)) = []
   \<and> (Document, ''keyup'', CheckImage, True) \<in> set (listeners (snd (checkImage selected_readme)))
   \<and> (Root, ''input'', CheckImage, True) \<in> set (listeners (snd (checkImage selected_readme)))
   \<and> fst (handleMouseup dragging_left) = None
   \<and> (Document, ''mousemove'', HandleDrag, False) \<in> set (listeners dragging_left)
   \<and> (Document, ''mousemove'', HandleDrag, False) \<notin> set (listeners (snd (handleMouseup dragging_left)))
   \<and> (Document, ''mouseup'', HandleMouseup, False) \<notin> set (listeners (snd (handleMouseup dragging_left)))"
proof -
  have key: "checkImage selected_readme = hide selected_readme"
    by (simp add: checkImage_selected selected_readme_fields)
  have torn: "fst (hideResizers selected_readme) = None"
    by (simp add: hideResizers_fst selected_readme_fields remove_handles)
  have kept: "listeners (snd (hideResizers selected_readme)) = listeners selected_readme"
    by (simp add: hideResizers_listeners selected_readme_listeners)
  have up: "listeners (snd (handleMouseup dragging_left)) = listeners selected_readme"
    by (simp add: handleMouseup_listeners [where i = 1] dragging_left_fields
        dragging_left_listeners selected_readme_listeners)
  from key kept up show ?thesis
    by (simp add: hide_selected_readme hideResizers_done [OF torn] selected_readme_listeners
        dragging_left_listeners handleMouseup_fst dragging_left_fields)
qed

text \<open>
  Claim C7, as amended. A mouseup that arrives while an image is selected throws
  nothing, sets the cursor of the body, of the image and of the editor root back to the
  empty string, and detaches the mousemove and the mouseup listener of the drag; the
  selected image, its handles, its size display and the children of the body stay as they
  are. The three fields of the drag session (handle, start position, width before the
  drag) are left as they are by a mouseup: they are cleared by the teardown of the
  handles (\<open>hideResizers\<close>), whenever that teardown completes.
\<close>

theorem mouseup_ends_drag_keeps_fields:
  "img s = Some i \<longrightarrow>
     fst (handleMouseup s) = None
   \<and> img (snd (handleMouseup s)) = Some i
   \<and> boxes (snd (handleMouseup s)) = boxes s
   \<and> display (snd (handleMouseup s)) = display s
   \<and> body_children (snd (handleMouseup s)) = body_children s
   \<and> dragBox (snd (handleMouseup s)) = dragBox s
   \<and> dragStartX (snd (handleMouseup s)) = dragStartX s
   \<and> preDragWidth (snd (handleMouseup s)) = preDragWidth s
   \<and> body_style (snd (handleMouseup s)) ''cursor'' = Some (Css [])
   \<and> root_style (snd (handleMouseup s)) ''cursor'' = Some (Css [])
   \<and> style (elements (snd (handleMouseup s)) i) ''cursor'' = Some (Css [])
   \<and> (Document, ''mousemove'', HandleDrag, False) \<notin> set (listeners (snd (handleMouseup s)))
   \<and> (Document, ''mouseup'', HandleMouseup, False) \<notin> set (listeners (snd (handleMouseup s)))
   \<and> (fst (hideResizers s) = None \<longrightarrow>
        dragBox (snd (hideResizers s)) = None
      \<and> dragStartX (snd (hideResizers s)) = None
      \<and> preDragWidth (snd (hideResizers s)) = None)"
proof
  assume sel: "img s = Some i"
  have teardown: "dragBox (snd (hideResizers s)) = None
      \<and> dragStartX (snd (hideResizers s)) = None
      \<and> preDragWidth (snd (hideResizers s)) = None"
    if "fst (hideResizers s) = None"
    using hideResizers_done [OF that] by simp
  from sel teardown show "fst (handleMouseup s) = None
   \<and> img (snd (handleMouseup s)) = Some i
   \<and> boxes (snd (handleMouseup s)) = boxes s
   \<and> display (snd (handleMouseup s)) = display s
   \<and> body_children (snd (handleMouseup s)) = body_children s
   \<and> dragBox (snd (handleMouseup s)) = dragBox s
   \<and> dragStartX (snd (handleMouseup s)) = dragStartX s
   \<and> preDragWidth (snd (handleMouseup s)) = preDragWidth s
   \<and> body_style (snd (handleMouseup s)) ''cursor'' = Some (Css [])
   \<and> root_style (snd (handleMouseup s)) ''cursor'' = Some (Css [])
   \<and> style (elements (snd (handleMouseup s)) i) ''cursor'' = Some (Css [])
   \<and> (Document, ''mousemove'', HandleDrag, False) \<notin> set (listeners (snd (handleMouseup s)))
   \<and> (Document, ''mouseup'', HandleMouseup, False) \<notin> set (listeners (snd (handleMouseup s)))
   \<and> (fst (hideResizers s) = None \<longrightarrow>
        dragBox (snd (hideResizers s)) = None
      \<and> dragStartX (snd (hideResizers s)) = None
      \<and> preDragWidth (snd (hideResizers s)) = None)"
    by (simp add: handleMouseup_fst handleMouseup_frame handleMouseup_listeners
        handleMouseup_styles)
qed

theorem mouseup_ends_drag_keeps_fields_witness:
  "img dragging_left = Some 1
   \<and> fst (handleMouseup dragging_left) = None
   \<and> img (snd (handleMouseup dragging_left)) = Some 1
   \<and> boxes (snd (handleMouseup dragging_left)) = [3, 4, 5, 6]
   \<and> display (snd (handleMouseup dragging_left)) = Some 7
   \<and> body_children (snd (handleMouseup dragging_left)) = [3, 4, 5, 6, 7]
   \<and> preDragWidth (snd (handleMouseup dragging_left)) = Some (Fin 402)
   \<and> body_style (snd (handleMouseup dragging_left)) ''cursor'' = Some (Css [])
   \<and> (Document, ''mousemove'', HandleDrag, False)
        \<notin> set (listeners (snd (handleMouseup dragging_left)))
   \<and> fst (hideResizers dragging_left) = None
   \<and> dragBox (snd (hideResizers dragging_left)) = None"
proof -
  have sel: "img dragging_left = Some 1"
    by (rule dragging_left_fields)
  have torn: "fst (hideResizers dragging_left) = None"
    by (simp add: hideResizers_fst dragging_left_fields remove_handles)
  from mouseup_ends_drag_keeps_fields [of dragging_left 1] sel torn show ?thesis
    by (simp add: dragging_left_fields)
qed

text \<open>
  The claim as it was stated fails after any drag: on the page of the README, after a
  click on the photo, a mousedown on the top left handle at \<open>clientX = 100\<close> and a
  mouseup, the three fields still hold the handle, 100 and 402.
\<close>

theorem mouseup_clears_fields_counterexample:
  "fst (handleMouseup dragging_left) = None
   \<and> dragBox (snd (handleMouseup dragging_left)) = Some 3
   \<and> dragStartX (snd (handleMouseup dragging_left)) = Some (Fin 100)
   \<and> preDragWidth (snd (handleMouseup dragging_left)) = Some (Fin 402)"
  by (simp add: handleMouseup_fst handleMouseup_frame dragging_left_fields)

text \<open>
  Claim C8. The specification: after any sequence of clicks the overlays belong to
  exactly the selected image, and a click on image B while image A is selected removes
  the overlays of A and creates those of B. With the default options the teardown of A
  throws in \<open>hideSizeDisplay\<close> (the defect of claim C3) after the handles of A are
  removed, so \<open>show\<close> is never reached: after a click on the photo and a click on the
  banner, the click handler has thrown a \<open>TypeError\<close>, the photo is still the selected
  image, and there is no handle in the document for either image. With the options of
  the README the same two clicks do what the claim says: the five overlays of the photo
  are gone and the banner has five new ones.
\<close>

theorem second_image_click_throws_without_size_display:
  "clicked_img (mouse_at 2 0) selected_default = Some 2
   \<and> fst (handleClick (mouse_at 2 0) selected_default) = Some TypeError
   \<and> img (snd (handleClick (mouse_at 2 0) selected_default)) = Some 1
   \<and> boxes (snd (handleClick (mouse_at 2 0) selected_default)) = []
   \<and> body_children (snd (handleClick (mouse_at 2 0) selected_default)) = []
   \<and> fst (handleClick (mouse_at 2 0) selected_readme) = None
   \<and> img (snd (handleClick (mouse_at 2 0) selected_readme)) = Some 2
   \<and> boxes (snd (handleClick (mouse_at 2 0) selected_readme)) = [8, 9, 10, 11]
   \<and> display (snd (handleClick (mouse_at 2 0) selected_readme)) = Some 12
   \<and> body_children (snd (handleClick (mouse_at 2 0) selected_readme)) = [8, 9, 10, 11, 12]"
proof -
  have banner: "clicked_img (mouse_at 2 0) selected_default = Some 2"
    by (simp add: clicked_img_def mouse_at_def selected_default_tags is_img_tag_examples)
  have torn: "fst (hideResizers selected_default) = None"
    by (simp add: hideResizers_fst selected_default_fields remove_handles)
  have "handleClick (mouse_at 2 0) selected_default = hide selected_default"
    using handleClick_other [of selected_default 1 "mouse_at 2 0" 2] banner
    by (simp add: selected_default_fields hide_selected_default)
  with banner have default:
    "clicked_img (mouse_at 2 0) selected_default = Some 2
     \<and> fst (handleClick (mouse_at 2 0) selected_default) = Some TypeError
     \<and> img (snd (handleClick (mouse_at 2 0) selected_default)) = Some 1
     \<and> boxes (snd (handleClick (mouse_at 2 0) selected_default)) = []
     \<and> body_children (snd (handleClick (mouse_at 2 0) selected_default)) = []"
    by (simp add: hide_selected_default hideResizers_frame hideResizers_done [OF torn]
        selected_default_fields remove_handles)
  let ?t = "(snd (hideResizers selected_readme))\<lparr>body_children := [], display := None, img := None\<rparr>"
  have torn_readme: "fst (hideResizers selected_readme) = None"
    by (simp add: hideResizers_fst selected_readme_fields remove_handles)
  have banner_readme: "clicked_img (mouse_at 2 0) selected_readme = Some 2"
    by (simp add: clicked_img_def mouse_at_def selected_readme_tags is_img_tag_examples)
  have "handleClick (mouse_at 2 0) selected_readme = show_img 2 ?t"
    using handleClick_other [of selected_readme 1 "mouse_at 2 0" 2] banner_readme
    by (simp add: selected_readme_fields hide_selected_readme)
  moreover have "next_id ?t = 8" "boxes ?t = []" "body_children ?t = []"
    "displaySize (options ?t)"
    by (simp_all add: hideResizers_frame hideResizers_done [OF torn_readme]
        selected_readme_next_id)
  ultimately have readme:
    "fst (handleClick (mouse_at 2 0) selected_readme) = None
     \<and> img (snd (handleClick (mouse_at 2 0) selected_readme)) = Some 2
     \<and> boxes (snd (handleClick (mouse_at 2 0) selected_readme)) = [8, 9, 10, 11]
     \<and> display (snd (handleClick (mouse_at 2 0) selected_readme)) = Some 12
     \<and> body_children (snd (handleClick (mouse_at 2 0) selected_readme)) = [8, 9, 10, 11, 12]"
    by (simp add: show_img_fst show_img_effect)
  from default readme show ?thesis
    by simp
qed

text \<open>
  Claim C9, as amended. Whenever the size display is repositioned (a display and a
  selected image exist), nothing is thrown and the label shows the current width \<open>w\<close> of
  the image and the height \<open>h = Math.round(w / naturalWidth * naturalHeight)\<close>, the
  quotient taken first and each operation rounded to a binary64 value. If \<open>w > 120\<close> and
  \<open>h > 30\<close> the label is put inside the bottom right corner of the image, at
  \<open>left = round(right edge - label width - 8)\<close> and \<open>top = round(bottom edge - label height - 8)\<close>;
  otherwise outside, at \<open>left = round(right edge + 8)\<close> and \<open>top = round(bottom edge + 8)\<close>. The edges
  are those of the rectangle passed in, shifted by the scroll offsets of the page.
\<close>

theorem size_display_height_and_placement:
  "display s = Some d \<and> img s = Some i \<longrightarrow>
     (let e = elements s i;
          w = width e;
          h = js_round (js_mul (js_div w (naturalWidth e)) (naturalHeight e));
          s' = snd (positionSizeDisplay r s);
          dispRect = layout s d ((elements s d)\<lparr>innerHTML := Joined [w, h] '' &times; ''\<rparr>);
          right_edge = js_add (js_add (rect_left r) (rect_width r)) (pageXOffset s);
          bottom_edge = js_add (js_add (rect_top r) (rect_height r)) (pageYOffset s)
      in fst (positionSizeDisplay r s) = None
       \<and> innerHTML (elements s' d) = Joined [w, h] '' &times; ''
       \<and> (js_gt w (Fin 120) \<and> js_gt h (Fin 30) \<longrightarrow>
            style (elements s' d) ''left'' =
              Some (Px (js_round (js_sub (js_sub right_edge (rect_width dispRect)) (Fin 8))))
          \<and> style (elements s' d) ''top'' =
              Some (Px (js_round (js_sub (js_sub bottom_edge (rect_height dispRect)) (Fin 8)))))
       \<and> (\<not> (js_gt w (Fin 120) \<and> js_gt h (Fin 30)) \<longrightarrow>
            style (elements s' d) ''left'' = Some (Px (js_round (js_add right_edge (Fin 8))))
          \<and> style (elements s' d) ''top'' = Some (Px (js_round (js_add bottom_edge (Fin 8))))))"
  by (auto simp: positionSizeDisplay_def getCurrentSize_def Let_def extend_style_def
      update_element_def extend_props_def)

lemma label_arithmetic:
  "js_round (js_mul (js_div (Fin 402) (Fin 800)) (Fin 600)) = Fin 301"
  "js_round (js_div (js_mul (Fin 402) (Fin 600)) (Fin 800)) = Fin 302"
  "js_round (js_sub (js_sub (js_add (js_add (Fin 10) (Fin 402)) (Fin 0)) (Fin 60)) (Fin 8)) = Fin 344"
  "js_round (js_sub (js_sub (js_add (js_add (Fin 20) (Fin 50)) (Fin 0)) (Fin 20)) (Fin 8)) = Fin 42"
  by code_simp+

lemma photo_rect:
  "demo_layout n photo =
     \<lparr>rect_left = Fin 10, rect_top = Fin 20, rect_width = Fin 402, rect_height = Fin 50\<rparr>"
  by (simp add: demo_layout_def photo_def is_img_tag_examples)

lemma label_rect:
  "demo_layout n ((elements selected_readme 7)\<lparr>innerHTML := h\<rparr>) =
     \<lparr>rect_left = Fin 0, rect_top = Fin 0, rect_width = Fin 60, rect_height = Fin 20\<rparr>"
  by (simp add: demo_layout_def selected_readme_display is_img_tag_examples)

theorem size_display_height_and_placement_witness:
  "display selected_readme = Some 7 \<and> img selected_readme = Some 1
   \<and> fst (positionSizeDisplay (demo_layout 1 photo) selected_readme) = None
   \<and> innerHTML (elements (snd (positionSizeDisplay (demo_layout 1 photo) selected_readme)) 7) =
       Joined [Fin 402, Fin 301] '' &times; ''
   \<and> style (elements (snd (positionSizeDisplay (demo_layout 1 photo) selected_readme)) 7) ''left'' =
       Some (Px (Fin 344))
   \<and> style (elements (snd (positionSizeDisplay (demo_layout 1 photo) selected_readme)) 7) ''top'' =
       Some (Px (Fin 42))"
proof -
  have sel: "display selected_readme = Some 7 \<and> img selected_readme = Some 1"
    by (simp add: selected_readme_fields)
  have big: "js_gt (Fin 402) (Fin 120)" "js_gt (Fin 301) (Fin 30)"
    by simp_all
  from size_display_height_and_placement [of selected_readme 7 1 "demo_layout 1 photo"] sel big
  show ?thesis
    by (simp add: Let_def selected_readme_photo selected_readme_fields label_arithmetic
        label_rect photo_rect
        del: js_add.simps js_mul.simps js_div.simps js_round.simps js_neg.simps)
qed

text \<open>
  The claim as it was stated gives the height as \<open>round(width \<times> naturalHeight / naturalWidth)\<close>.
  For the photo of the README page, 402 wide with the natural size 800 x 600, that is
  \<open>round(301.5) = 302\<close>. The code divides first: \<open>402 / 800\<close> is not a binary64 value, the
  nearest one is slightly below \<open>0.5025\<close>, its product with 600 rounds to the binary64
  value just below \<open>301.5\<close>, and the label shows 301.
\<close>

theorem displayed_height_counterexample:
  "innerHTML (elements (snd (positionSizeDisplay (demo_layout 1 photo) selected_readme)) 7) =
     Joined [Fin 402, Fin 301] '' &times; ''
   \<and> claimed_height (elements selected_readme 1) = Fin 302"
proof -
  have size: "getCurrentSize (elements selected_readme 1) = (Fin 402, Fin 301)"
    by (simp add: getCurrentSize_def selected_readme_photo label_arithmetic
        del: js_mul.simps js_div.simps js_round.simps)
  have "innerHTML (elements (snd (positionSizeDisplay (demo_layout 1 photo) selected_readme)) 7) =
      Joined [fst (getCurrentSize (elements selected_readme 1)),
              snd (getCurrentSize (elements selected_readme 1))] '' &times; ''"
    by (rule positionSizeDisplay_label) (simp_all add: selected_readme_fields)
  with size show ?thesis
    by (simp add: claimed_height_def selected_readme_photo label_arithmetic
        del: js_mul.simps js_div.simps js_round.simps)
qed

end
